theory Spec2Isabelle
  imports Main
begin

section \<open>JavaScript values\<close>

text \<open>
  The arguments of every operation (realm names, identifiers, option objects, entities)
  and the decoded response bodies are JavaScript values. The model keeps the JSON-shaped
  ones: \<open>undefined\<close>, \<open>null\<close>, booleans, integral numbers, strings, arrays and plain
  objects (an association list of own properties, read with \<open>map_of\<close>).
  \<open>JNum n\<close> stands for the integral number \<open>n\<close> in the range where JavaScript prints
  a number as its plain decimal digits.
\<close>

datatype jsval =
    JUndefined
  | JNull
  | JBool bool
  | JNum int
  | JStr string
  | JArr "jsval list"
  | JObj "(string \<times> jsval) list"

datatype js_error =
    TransportError string
  | TypeError

text \<open>ToBoolean, as used by \<open>if (v)\<close> and \<open>v || d\<close>.\<close>

fun js_truthy :: "jsval \<Rightarrow> bool" where
  "js_truthy JUndefined = False"
| "js_truthy JNull = False"
| "js_truthy (JBool b) = b"
| "js_truthy (JNum n) = (n \<noteq> 0)"
| "js_truthy (JStr s) = (s \<noteq> [])"
| "js_truthy (JArr xs) = True"
| "js_truthy (JObj kvs) = True"

text \<open>\<open>v || d\<close>\<close>

definition js_or :: "jsval \<Rightarrow> jsval \<Rightarrow> jsval" where
  "js_or v d = (if js_truthy v then v else d)"

text \<open>
  The property read \<open>v.k\<close> for the two keys the source reads, \<open>id\<close> and \<open>alias\<close>:
  reading a property of \<open>undefined\<close> or \<open>null\<close> throws a TypeError, an object yields its
  own property or \<open>undefined\<close>, and no primitive or array has a property of these names.
\<close>

fun js_get :: "jsval \<Rightarrow> string \<Rightarrow> js_error + jsval" where
  "js_get JUndefined k = Inl TypeError"
| "js_get JNull k = Inl TypeError"
| "js_get (JObj kvs) k = (case map_of kvs k of None \<Rightarrow> Inr JUndefined | Some v \<Rightarrow> Inr v)"
| "js_get v k = Inr JUndefined"

text \<open>Decimal digits of a natural number.\<close>

fun digits :: "nat \<Rightarrow> string" where
  "digits n = (if n < 10 then [''0123456789'' ! n]
               else digits (n div 10) @ [''0123456789'' ! (n mod 10)])"

fun join :: "string \<Rightarrow> string list \<Rightarrow> string" where
  "join sep [] = []"
| "join sep [x] = x"
| "join sep (x # y # ys) = x @ sep @ join sep (y # ys)"

text \<open>
  ToString, as applied by a template literal \<open>`${v}`\<close>. An array prints its elements
  joined by commas, with \<open>undefined\<close> and \<open>null\<close> elements printed as the empty string;
  a plain object prints as \<open>[object Object]\<close>.
\<close>

fun to_string :: "jsval \<Rightarrow> string" where
  "to_string JUndefined = ''undefined''"
| "to_string JNull = ''null''"
| "to_string (JBool b) = (if b then ''true'' else ''false'')"
| "to_string (JNum n) = (if n < 0 then ''-'' @ digits (nat (- n)) else digits (nat n))"
| "to_string (JStr s) = s"
| "to_string (JArr xs) =
     join '','' (map (\<lambda>x. if x = JUndefined \<or> x = JNull then [] else to_string x) xs)"
| "to_string (JObj kvs) = ''[object Object]''"

section \<open>The regular expression of create\<close>

text \<open>
  \<open>location.replace(/.*\/(.*)$/, '$1')\<close> replaces the first match of the pattern by its
  group; without a match the string is returned as it is. A dot matches every character
  but a line terminator, and \<open>$\<close> (no \<open>m\<close> flag) matches at the end of the input only.
  Header strings are byte strings, where the line terminators are LF and CR.
\<close>

definition line_terminator :: "char \<Rightarrow> bool" where
  "line_terminator c = (c = CHR 0x0A \<or> c = CHR 0x0D)"

text \<open>
  The tail \<open>\/(.*)$\<close> of the pattern, tried at the start of \<open>s\<close>: a slash, then the
  group takes the longest run of characters that are no line terminators, which must
  reach the end of the input.
\<close>

definition slash_group_end :: "string \<Rightarrow> string option" where
  "slash_group_end s =
     (case s of
        [] \<Rightarrow> None
      | c # rest \<Rightarrow>
          if c = CHR ''/'' \<and> \<not> list_ex line_terminator rest then Some rest else None)"

text \<open>
  The greedy \<open>.*\<close> in front: \<open>taken\<close> holds the characters it has consumed, the last one
  first. When the tail of the pattern does not match what is left, it gives its last
  character back and the tail is tried again.
\<close>

fun backtrack :: "string \<Rightarrow> string \<Rightarrow> string option" where
  "backtrack [] rest = slash_group_end rest"
| "backtrack (p # taken) rest =
     (case slash_group_end rest of
        Some g \<Rightarrow> Some g
      | None \<Rightarrow> backtrack taken (p # rest))"

text \<open>
  The pattern tried at the start of \<open>s\<close>: \<open>.*\<close> first consumes all characters up to the
  first line terminator. The result is the group of the match.
\<close>

definition match_here :: "string \<Rightarrow> string option" where
  "match_here s =
     backtrack (rev (takeWhile (\<lambda>c. \<not> line_terminator c) s))
       (dropWhile (\<lambda>c. \<not> line_terminator c) s)"

text \<open>
  The search tries each start from the left; the first match, which reaches to the end of
  the input, is replaced by its group.
\<close>

fun replace_location :: "string \<Rightarrow> string" where
  "replace_location [] = []"
| "replace_location (c # cs) =
     (case match_here (c # cs) of
        Some g \<Rightarrow> g
      | None \<Rightarrow> c # replace_location cs)"

section \<open>Clients, requests and responses\<close>

text \<open>
  The client object carries \<open>baseUrl\<close>; the field \<open>ident\<close> stands for the identity of
  the object, which is the key under which its private state is stored.
\<close>

record client =
  ident :: nat
  baseUrl :: string

record private_state =
  accessToken :: string

text \<open>
  Modelled from the spec: the module \<open>private-map\<close> is not among the sources. By the
  spec, every constructed client has a private state that holds its access token as a
  string; \<open>privates.get(client)\<close> is the lookup in that store. The store is changed from
  outside (when the token is refreshed), never by the operations below.
\<close>

type_synonym privates_map = "client \<Rightarrow> private_state"

definition privates_get :: "privates_map \<Rightarrow> client \<Rightarrow> private_state" where
  "privates_get ps c = ps c"

text \<open>
  The request descriptor handed to \<open>request\<close>. A property that the object literal does
  not hold is \<open>None\<close>; \<open>auth_bearer\<close> is \<open>auth.bearer\<close>, from which the transport makes
  the header \<open>Authorization: Bearer ...\<close>; \<open>http_method\<close> is the property \<open>method\<close>.
\<close>

record request =
  url :: string  auth_bearer :: string
  json :: "bool option"  http_method :: "string option"
  body :: "jsval option"  qs :: "jsval option"

record response =
  statusCode :: int
  headers :: "string \<rightharpoonup> string"

text \<open>
  \<open>request\<close> calls its callback either as \<open>callback(err)\<close>, with an error object, when
  the exchange could not be completed, or as \<open>callback(null, resp, body)\<close>.
\<close>

datatype reply =
    Failed js_error
  | Completed response jsval

text \<open>
  The remote side: its reply to a request may depend on the requests sent before.
\<close>

type_synonym server = "request list \<Rightarrow> request \<Rightarrow> reply"

record world =
  privates :: privates_map
  sent :: "request list"

text \<open>The token of a client is refreshed from outside, between two calls.\<close>

definition rotate_token :: "client \<Rightarrow> string \<Rightarrow> world \<Rightarrow> world" where
  "rotate_token c t w = w\<lparr>privates := (privates w)(c := \<lparr>accessToken = t\<rparr>)\<rparr>"

text \<open>
  How the promise returned by an operation ends: \<open>resolve(v)\<close>, \<open>reject(body)\<close>,
  \<open>reject(err)\<close> (also the fate of an exception thrown inside the promise executor),
  or an exception that escapes the request callback, where no handler of the promise
  catches it and the promise is never settled.
\<close>

datatype outcome =
    Resolved jsval
  | Rejected jsval
  | RejectedErr js_error
  | Uncaught js_error

text \<open>\<open>request(req, callback)\<close>: the request goes out, the callback gets the reply.\<close>

definition request :: "server \<Rightarrow> request \<Rightarrow> (reply \<Rightarrow> world \<Rightarrow> outcome \<times> world) \<Rightarrow> world \<Rightarrow> outcome \<times> world" where
  "request srv req callback w = callback (srv (sent w) req) (w\<lparr>sent := sent w @ [req]\<rparr>)"

section \<open>The user-storage module\<close>

text \<open>
  Each exported function takes the client and returns the operation; the operation reads
  the access token from the private store when it is called. Its request descriptor is
  built first (\<open>..._req\<close>), then handed to \<open>request\<close> with the callback that settles
  the promise. In every template literal the arguments are converted by ToString.

  \<open>find\<close>: \<open>options = options || {}\<close>; the descriptor gets the URL of one component when
  \<open>options.id\<close> is truthy, and else the URL of the collection together with
  \<open>qs = options\<close>.
\<close>

definition userStorage_find_req :: "client \<Rightarrow> privates_map \<Rightarrow> jsval \<Rightarrow> jsval \<Rightarrow> js_error + request" where
  "userStorage_find_req client ps realm options0 =
     (let options = js_or options0 (JObj []) in
      case js_get options ''id'' of
        Inl e \<Rightarrow> Inl e
      | Inr v \<Rightarrow>
          if js_truthy v then
            Inr \<lparr>url = baseUrl client @ ''/admin/realms/'' @ to_string realm @ ''/components/'' @ to_string v,
                 auth_bearer = accessToken (privates_get ps client),
                 json = Some True, http_method = None, body = None, qs = None\<rparr>
          else
            Inr \<lparr>url = baseUrl client @ ''/admin/realms/'' @ to_string realm @ ''/components?parent='' @ to_string realm @ ''&type=org.keycloak.storage.UserStorageProvider'',
                 auth_bearer = accessToken (privates_get ps client),
                 json = Some True, http_method = None, body = None, qs = Some options\<rparr>)"

definition userStorage_find :: "client \<Rightarrow> server \<Rightarrow> jsval \<Rightarrow> jsval \<Rightarrow> world \<Rightarrow> outcome \<times> world" where
  "userStorage_find client srv realm options w =
     (case userStorage_find_req client (privates w) realm options of
        Inl e \<Rightarrow> (RejectedErr e, w)
      | Inr req \<Rightarrow>
          request srv req
            (\<lambda>reply w'. case reply of
                 Failed err \<Rightarrow> (RejectedErr err, w')
               | Completed resp body' \<Rightarrow>
                   if statusCode resp \<noteq> 200 then (Rejected body', w')
                   else (Resolved body', w')) w)"

text \<open>
  \<open>create\<close>: on status 201 the identifier is cut out of \<open>resp.headers.location\<close>; with
  no such header the method call on \<open>undefined\<close> throws inside the request callback. The
  promise is resolved with the promise of \<open>client.realms.userStorage.find\<close>, whose fate
  it takes over.
\<close>

definition userStorage_create_req :: "client \<Rightarrow> privates_map \<Rightarrow> jsval \<Rightarrow> jsval \<Rightarrow> request" where
  "userStorage_create_req client ps realmName userStorage =
     \<lparr>url = baseUrl client @ ''/admin/realms/'' @ to_string realmName @ ''/components'',
      auth_bearer = accessToken (privates_get ps client),
      json = Some True, http_method = Some ''POST'', body = Some userStorage, qs = None\<rparr>"

text \<open>
  Modelled from the spec: the construction of the client object is not among the
  sources; by the spec the modules are attached to the client as sibling properties, so
  \<open>client.realms.userStorage.find\<close> is \<open>find(client)\<close> of this module.
\<close>

definition userStorage_create :: "client \<Rightarrow> server \<Rightarrow> jsval \<Rightarrow> jsval \<Rightarrow> world \<Rightarrow> outcome \<times> world" where
  "userStorage_create client srv realmName userStorage w =
     request srv (userStorage_create_req client (privates w) realmName userStorage)
       (\<lambda>reply w'. case reply of
            Failed err \<Rightarrow> (RejectedErr err, w')
          | Completed resp body' \<Rightarrow>
              if statusCode resp \<noteq> 201 then (Rejected body', w')
              else (case headers resp ''location'' of
                       None \<Rightarrow> (Uncaught TypeError, w')
                     | Some location \<Rightarrow>
                         let uid = replace_location location
                         in userStorage_find client srv realmName (JObj [(''id'', JStr uid)]) w')) w"

definition userStorage_update_req :: "client \<Rightarrow> privates_map \<Rightarrow> jsval \<Rightarrow> jsval \<Rightarrow> js_error + request" where
  "userStorage_update_req client ps realmName userStorage0 =
     (let userStorage = js_or userStorage0 (JObj []) in
      case js_get userStorage ''id'' of
        Inl e \<Rightarrow> Inl e
      | Inr v \<Rightarrow>
          Inr \<lparr>url = baseUrl client @ ''/admin/realms/'' @ to_string realmName @ ''/components/'' @ to_string v,
               auth_bearer = accessToken (privates_get ps client),
               json = Some True, http_method = Some ''PUT'', body = Some userStorage, qs = None\<rparr>)"

definition userStorage_update :: "client \<Rightarrow> server \<Rightarrow> jsval \<Rightarrow> jsval \<Rightarrow> world \<Rightarrow> outcome \<times> world" where
  "userStorage_update client srv realmName userStorage w =
     (case userStorage_update_req client (privates w) realmName userStorage of
        Inl e \<Rightarrow> (RejectedErr e, w)
      | Inr req \<Rightarrow>
          request srv req
            (\<lambda>reply w'. case reply of
                 Failed err \<Rightarrow> (RejectedErr err, w')
               | Completed resp body' \<Rightarrow>
                   if statusCode resp \<noteq> 204 then (Rejected body', w')
                   else (Resolved body', w')) w)"

definition userStorage_remove_req :: "client \<Rightarrow> privates_map \<Rightarrow> jsval \<Rightarrow> jsval \<Rightarrow> request" where
  "userStorage_remove_req client ps realmName id' =
     \<lparr>url = baseUrl client @ ''/admin/realms/'' @ to_string realmName @ ''/components/'' @ to_string id',
      auth_bearer = accessToken (privates_get ps client),
      json = None, http_method = Some ''DELETE'', body = None, qs = None\<rparr>"

definition userStorage_remove :: "client \<Rightarrow> server \<Rightarrow> jsval \<Rightarrow> jsval \<Rightarrow> world \<Rightarrow> outcome \<times> world" where
  "userStorage_remove client srv realmName id' w =
     request srv (userStorage_remove_req client (privates w) realmName id')
       (\<lambda>reply w'. case reply of
            Failed err \<Rightarrow> (RejectedErr err, w')
          | Completed resp body' \<Rightarrow>
              if statusCode resp \<noteq> 204 then (Rejected body', w')
              else (Resolved body', w')) w"

definition triggerChangedUsersSync_req :: "client \<Rightarrow> privates_map \<Rightarrow> jsval \<Rightarrow> jsval \<Rightarrow> request" where
  "triggerChangedUsersSync_req client ps realm id' =
     \<lparr>url = baseUrl client @ ''/admin/realms/'' @ to_string realm @ ''/user-storage/'' @ to_string id' @ ''/sync?action=triggerChangedUsersSync'',
      auth_bearer = accessToken (privates_get ps client),
      json = Some True, http_method = None, body = None, qs = None\<rparr>"

definition triggerChangedUsersSync :: "client \<Rightarrow> server \<Rightarrow> jsval \<Rightarrow> jsval \<Rightarrow> world \<Rightarrow> outcome \<times> world" where
  "triggerChangedUsersSync client srv realm id' w =
     request srv (triggerChangedUsersSync_req client (privates w) realm id')
       (\<lambda>reply w'. case reply of
            Failed err \<Rightarrow> (RejectedErr err, w')
          | Completed resp body' \<Rightarrow>
              if statusCode resp \<noteq> 200 then (Rejected body', w')
              else (Resolved body', w')) w"

definition triggerFullSync_req :: "client \<Rightarrow> privates_map \<Rightarrow> jsval \<Rightarrow> jsval \<Rightarrow> request" where
  "triggerFullSync_req client ps realm id' =
     \<lparr>url = baseUrl client @ ''/admin/realms/'' @ to_string realm @ ''/user-storage/'' @ to_string id' @ ''/sync?action=triggerFullSync'',
      auth_bearer = accessToken (privates_get ps client),
      json = Some True, http_method = None, body = None, qs = None\<rparr>"

definition triggerFullSync :: "client \<Rightarrow> server \<Rightarrow> jsval \<Rightarrow> jsval \<Rightarrow> world \<Rightarrow> outcome \<times> world" where
  "triggerFullSync client srv realm id' w =
     request srv (triggerFullSync_req client (privates w) realm id')
       (\<lambda>reply w'. case reply of
            Failed err \<Rightarrow> (RejectedErr err, w')
          | Completed resp body' \<Rightarrow>
              if statusCode resp \<noteq> 200 then (Rejected body', w')
              else (Resolved body', w')) w"

definition removeImportedUsers_req :: "client \<Rightarrow> privates_map \<Rightarrow> jsval \<Rightarrow> jsval \<Rightarrow> request" where
  "removeImportedUsers_req client ps realm id' =
     \<lparr>url = baseUrl client @ ''/admin/realms/'' @ to_string realm @ ''/user-storage/'' @ to_string id' @ ''/remove-imported-users'',
      auth_bearer = accessToken (privates_get ps client),
      json = Some True, http_method = None, body = None, qs = None\<rparr>"

definition removeImportedUsers :: "client \<Rightarrow> server \<Rightarrow> jsval \<Rightarrow> jsval \<Rightarrow> world \<Rightarrow> outcome \<times> world" where
  "removeImportedUsers client srv realm id' w =
     request srv (removeImportedUsers_req client (privates w) realm id')
       (\<lambda>reply w'. case reply of
            Failed err \<Rightarrow> (RejectedErr err, w')
          | Completed resp body' \<Rightarrow>
              if statusCode resp \<noteq> 200 then (Rejected body', w')
              else (Resolved body', w')) w"

definition unlinkImportedUsers_req :: "client \<Rightarrow> privates_map \<Rightarrow> jsval \<Rightarrow> jsval \<Rightarrow> request" where
  "unlinkImportedUsers_req client ps realm id' =
     \<lparr>url = baseUrl client @ ''/admin/realms/'' @ to_string realm @ ''/user-storage/'' @ to_string id' @ ''/unlink-users'',
      auth_bearer = accessToken (privates_get ps client),
      json = Some True, http_method = None, body = None, qs = None\<rparr>"

definition unlinkImportedUsers :: "client \<Rightarrow> server \<Rightarrow> jsval \<Rightarrow> jsval \<Rightarrow> world \<Rightarrow> outcome \<times> world" where
  "unlinkImportedUsers client srv realm id' w =
     request srv (unlinkImportedUsers_req client (privates w) realm id')
       (\<lambda>reply w'. case reply of
            Failed err \<Rightarrow> (RejectedErr err, w')
          | Completed resp body' \<Rightarrow>
              if statusCode resp \<noteq> 200 then (Rejected body', w')
              else (Resolved body', w')) w"

section \<open>The identity-provider module\<close>

definition identityProvider_find_req :: "client \<Rightarrow> privates_map \<Rightarrow> jsval \<Rightarrow> jsval \<Rightarrow> js_error + request" where
  "identityProvider_find_req client ps realm options0 =
     (let options = js_or options0 (JObj []) in
      case js_get options ''alias'' of
        Inl e \<Rightarrow> Inl e
      | Inr v \<Rightarrow>
          if js_truthy v then
            Inr \<lparr>url = baseUrl client @ ''/admin/realms/'' @ to_string realm @ ''/identity-provider/instances/'' @ to_string v,
                 auth_bearer = accessToken (privates_get ps client),
                 json = Some True, http_method = None, body = None, qs = None\<rparr>
          else
            Inr \<lparr>url = baseUrl client @ ''/admin/realms/'' @ to_string realm @ ''/identity-provider/instances'',
                 auth_bearer = accessToken (privates_get ps client),
                 json = Some True, http_method = None, body = None, qs = Some options\<rparr>)"

definition identityProvider_find :: "client \<Rightarrow> server \<Rightarrow> jsval \<Rightarrow> jsval \<Rightarrow> world \<Rightarrow> outcome \<times> world" where
  "identityProvider_find client srv realm options w =
     (case identityProvider_find_req client (privates w) realm options of
        Inl e \<Rightarrow> (RejectedErr e, w)
      | Inr req \<Rightarrow>
          request srv req
            (\<lambda>reply w'. case reply of
                 Failed err \<Rightarrow> (RejectedErr err, w')
               | Completed resp body' \<Rightarrow>
                   if statusCode resp \<noteq> 200 then (Rejected body', w')
                   else (Resolved body', w')) w)"

definition identityProvider_create_req :: "client \<Rightarrow> privates_map \<Rightarrow> jsval \<Rightarrow> jsval \<Rightarrow> request" where
  "identityProvider_create_req client ps realmName identityProvider =
     \<lparr>url = baseUrl client @ ''/admin/realms/'' @ to_string realmName @ ''/identity-provider/instances'',
      auth_bearer = accessToken (privates_get ps client),
      json = Some True, http_method = Some ''POST'', body = Some identityProvider, qs = None\<rparr>"

text \<open>
  Modelled from the spec: as for user storage, \<open>client.realms.identityProvider.find\<close> is
  \<open>find(client)\<close> of this module.
\<close>

definition identityProvider_create :: "client \<Rightarrow> server \<Rightarrow> jsval \<Rightarrow> jsval \<Rightarrow> world \<Rightarrow> outcome \<times> world" where
  "identityProvider_create client srv realmName identityProvider w =
     request srv (identityProvider_create_req client (privates w) realmName identityProvider)
       (\<lambda>reply w'. case reply of
            Failed err \<Rightarrow> (RejectedErr err, w')
          | Completed resp body' \<Rightarrow>
              if statusCode resp \<noteq> 201 then (Rejected body', w')
              else (case headers resp ''location'' of
                       None \<Rightarrow> (Uncaught TypeError, w')
                     | Some location \<Rightarrow>
                         let uid = replace_location location
                         in identityProvider_find client srv realmName (JObj [(''alias'', JStr uid)]) w')) w"

definition identityProvider_update_req :: "client \<Rightarrow> privates_map \<Rightarrow> jsval \<Rightarrow> jsval \<Rightarrow> js_error + request" where
  "identityProvider_update_req client ps realmName identityProvider0 =
     (let identityProvider = js_or identityProvider0 (JObj []) in
      case js_get identityProvider ''alias'' of
        Inl e \<Rightarrow> Inl e
      | Inr v \<Rightarrow>
          Inr \<lparr>url = baseUrl client @ ''/admin/realms/'' @ to_string realmName @ ''/identity-provider/instances/'' @ to_string v,
               auth_bearer = accessToken (privates_get ps client),
               json = Some True, http_method = Some ''PUT'', body = Some identityProvider, qs = None\<rparr>)"

definition identityProvider_update :: "client \<Rightarrow> server \<Rightarrow> jsval \<Rightarrow> jsval \<Rightarrow> world \<Rightarrow> outcome \<times> world" where
  "identityProvider_update client srv realmName identityProvider w =
     (case identityProvider_update_req client (privates w) realmName identityProvider of
        Inl e \<Rightarrow> (RejectedErr e, w)
      | Inr req \<Rightarrow>
          request srv req
            (\<lambda>reply w'. case reply of
                 Failed err \<Rightarrow> (RejectedErr err, w')
               | Completed resp body' \<Rightarrow>
                   if statusCode resp \<noteq> 204 then (Rejected body', w')
                   else (Resolved body', w')) w)"

definition identityProvider_remove_req :: "client \<Rightarrow> privates_map \<Rightarrow> jsval \<Rightarrow> jsval \<Rightarrow> request" where
  "identityProvider_remove_req client ps realmName alias =
     \<lparr>url = baseUrl client @ ''/admin/realms/'' @ to_string realmName @ ''/identity-provider/instances/'' @ to_string alias,
      auth_bearer = accessToken (privates_get ps client),
      json = None, http_method = Some ''DELETE'', body = None, qs = None\<rparr>"

definition identityProvider_remove :: "client \<Rightarrow> server \<Rightarrow> jsval \<Rightarrow> jsval \<Rightarrow> world \<Rightarrow> outcome \<times> world" where
  "identityProvider_remove client srv realmName alias w =
     request srv (identityProvider_remove_req client (privates w) realmName alias)
       (\<lambda>reply w'. case reply of
            Failed err \<Rightarrow> (RejectedErr err, w')
          | Completed resp body' \<Rightarrow>
              if statusCode resp \<noteq> 204 then (Rejected body', w')
              else (Resolved body', w')) w"

definition exportConfiguration_req :: "client \<Rightarrow> privates_map \<Rightarrow> jsval \<Rightarrow> jsval \<Rightarrow> request" where
  "exportConfiguration_req client ps realm alias =
     \<lparr>url = baseUrl client @ ''/admin/realms/'' @ to_string realm @ ''/identity-provider/instances/'' @ to_string alias @ ''/export'',
      auth_bearer = accessToken (privates_get ps client),
      json = Some True, http_method = None, body = None, qs = None\<rparr>"

definition exportConfiguration :: "client \<Rightarrow> server \<Rightarrow> jsval \<Rightarrow> jsval \<Rightarrow> world \<Rightarrow> outcome \<times> world" where
  "exportConfiguration client srv realm alias w =
     request srv (exportConfiguration_req client (privates w) realm alias)
       (\<lambda>reply w'. case reply of
            Failed err \<Rightarrow> (RejectedErr err, w')
          | Completed resp body' \<Rightarrow>
              if statusCode resp \<noteq> 200 then (Rejected body', w')
              else (Resolved body', w')) w"

section \<open>The authentication-flow module\<close>

definition authenticationFlow_find_req :: "client \<Rightarrow> privates_map \<Rightarrow> jsval \<Rightarrow> jsval \<Rightarrow> jsval \<Rightarrow> request" where
  "authenticationFlow_find_req client ps realm flow options0 =
     (let options = js_or options0 (JObj []) in
      \<lparr>url = baseUrl client @ ''/admin/realms/'' @ to_string realm @ ''/authentication/flows/'' @ to_string flow @ ''/executions'',
       auth_bearer = accessToken (privates_get ps client),
       json = Some True, http_method = None, body = None, qs = Some options\<rparr>)"

definition authenticationFlow_find :: "client \<Rightarrow> server \<Rightarrow> jsval \<Rightarrow> jsval \<Rightarrow> jsval \<Rightarrow> world \<Rightarrow> outcome \<times> world" where
  "authenticationFlow_find client srv realm flow options w =
     request srv (authenticationFlow_find_req client (privates w) realm flow options)
       (\<lambda>reply w'. case reply of
            Failed err \<Rightarrow> (RejectedErr err, w')
          | Completed resp body' \<Rightarrow>
              if statusCode resp \<noteq> 200 then (Rejected body', w')
              else (Resolved body', w')) w"

definition authenticationFlow_update_req :: "client \<Rightarrow> privates_map \<Rightarrow> jsval \<Rightarrow> jsval \<Rightarrow> jsval \<Rightarrow> request" where
  "authenticationFlow_update_req client ps realmName flow authenticationFlow =
     \<lparr>url = baseUrl client @ ''/admin/realms/'' @ to_string realmName @ ''/authentication/flows/'' @ to_string flow @ ''/executions'',
      auth_bearer = accessToken (privates_get ps client),
      json = Some True, http_method = Some ''PUT'', body = Some authenticationFlow, qs = None\<rparr>"

definition authenticationFlow_update :: "client \<Rightarrow> server \<Rightarrow> jsval \<Rightarrow> jsval \<Rightarrow> jsval \<Rightarrow> world \<Rightarrow> outcome \<times> world" where
  "authenticationFlow_update client srv realmName flow authenticationFlow w =
     request srv (authenticationFlow_update_req client (privates w) realmName flow authenticationFlow)
       (\<lambda>reply w'. case reply of
            Failed err \<Rightarrow> (RejectedErr err, w')
          | Completed resp body' \<Rightarrow>
              if statusCode resp \<noteq> 204 then (Rejected body', w')
              else (Resolved body', w')) w"

section \<open>The exported operations\<close>

text \<open>
  \<open>module.exports\<close> of the three modules: a call names an exported operation and gives
  its arguments; \<open>invoke\<close> runs it, and \<open>request_of\<close> is the descriptor of the request
  it issues first.
\<close>

datatype call =
    UserStorage_find jsval jsval
  | UserStorage_create jsval jsval
  | UserStorage_update jsval jsval
  | UserStorage_remove jsval jsval
  | UserStorage_triggerChangedUsersSync jsval jsval
  | UserStorage_triggerFullSync jsval jsval
  | UserStorage_removeImportedUsers jsval jsval
  | UserStorage_unlinkImportedUsers jsval jsval
  | IdentityProvider_find jsval jsval
  | IdentityProvider_create jsval jsval
  | IdentityProvider_update jsval jsval
  | IdentityProvider_remove jsval jsval
  | IdentityProvider_exportConfiguration jsval jsval
  | AuthenticationFlow_find jsval jsval jsval
  | AuthenticationFlow_update jsval jsval jsval

fun invoke :: "client \<Rightarrow> server \<Rightarrow> call \<Rightarrow> world \<Rightarrow> outcome \<times> world" where
  "invoke client srv (UserStorage_find a b) w = userStorage_find client srv a b w"
| "invoke client srv (UserStorage_create a b) w = userStorage_create client srv a b w"
| "invoke client srv (UserStorage_update a b) w = userStorage_update client srv a b w"
| "invoke client srv (UserStorage_remove a b) w = userStorage_remove client srv a b w"
| "invoke client srv (UserStorage_triggerChangedUsersSync a b) w = triggerChangedUsersSync client srv a b w"
| "invoke client srv (UserStorage_triggerFullSync a b) w = triggerFullSync client srv a b w"
| "invoke client srv (UserStorage_removeImportedUsers a b) w = removeImportedUsers client srv a b w"
| "invoke client srv (UserStorage_unlinkImportedUsers a b) w = unlinkImportedUsers client srv a b w"
| "invoke client srv (IdentityProvider_find a b) w = identityProvider_find client srv a b w"
| "invoke client srv (IdentityProvider_create a b) w = identityProvider_create client srv a b w"
| "invoke client srv (IdentityProvider_update a b) w = identityProvider_update client srv a b w"
| "invoke client srv (IdentityProvider_remove a b) w = identityProvider_remove client srv a b w"
| "invoke client srv (IdentityProvider_exportConfiguration a b) w = exportConfiguration client srv a b w"
| "invoke client srv (AuthenticationFlow_find a b c) w = authenticationFlow_find client srv a b c w"
| "invoke client srv (AuthenticationFlow_update a b c) w = authenticationFlow_update client srv a b c w"

fun request_of :: "client \<Rightarrow> privates_map \<Rightarrow> call \<Rightarrow> js_error + request" where
  "request_of client ps (UserStorage_find a b) = userStorage_find_req client ps a b"
| "request_of client ps (UserStorage_create a b) = Inr (userStorage_create_req client ps a b)"
| "request_of client ps (UserStorage_update a b) = userStorage_update_req client ps a b"
| "request_of client ps (UserStorage_remove a b) = Inr (userStorage_remove_req client ps a b)"
| "request_of client ps (UserStorage_triggerChangedUsersSync a b) = Inr (triggerChangedUsersSync_req client ps a b)"
| "request_of client ps (UserStorage_triggerFullSync a b) = Inr (triggerFullSync_req client ps a b)"
| "request_of client ps (UserStorage_removeImportedUsers a b) = Inr (removeImportedUsers_req client ps a b)"
| "request_of client ps (UserStorage_unlinkImportedUsers a b) = Inr (unlinkImportedUsers_req client ps a b)"
| "request_of client ps (IdentityProvider_find a b) = identityProvider_find_req client ps a b"
| "request_of client ps (IdentityProvider_create a b) = Inr (identityProvider_create_req client ps a b)"
| "request_of client ps (IdentityProvider_update a b) = identityProvider_update_req client ps a b"
| "request_of client ps (IdentityProvider_remove a b) = Inr (identityProvider_remove_req client ps a b)"
| "request_of client ps (IdentityProvider_exportConfiguration a b) = Inr (exportConfiguration_req client ps a b)"
| "request_of client ps (AuthenticationFlow_find a b c) = Inr (authenticationFlow_find_req client ps a b c)"
| "request_of client ps (AuthenticationFlow_update a b c) = Inr (authenticationFlow_update_req client ps a b c)"

text \<open>The requests that a run has added to the log.\<close>

definition issued :: "world \<Rightarrow> world \<Rightarrow> request list" where
  "issued w w' = drop (length (sent w)) (sent w')"

section \<open>The spec's words\<close>

text \<open>
  The final path segment of a URL, in the words of the spec: the URL is split at every
  slash and the last piece is taken. It is what follows the last slash of the URL.
\<close>

definition after_last_slash :: "string \<Rightarrow> string" where
  "after_last_slash s = rev (takeWhile (\<lambda>c. c \<noteq> CHR ''/'') (rev s))"

fun segments :: "string \<Rightarrow> string list" where
  "segments [] = [[]]"
| "segments (c # cs) =
     (if c = CHR ''/'' then [] # segments cs
      else (case segments cs of
              [] \<Rightarrow> [[c]]
            | x # xs \<Rightarrow> (c # x) # xs))"

definition final_path_segment :: "string \<Rightarrow> string" where
  "final_path_segment s = last (segments s)"

text \<open>
  An identifier is supplied in an options object when reading it yields a value other
  than \<open>undefined\<close>; an entity lacks an identifier when reading it yields \<open>undefined\<close>.
\<close>

definition supplied :: "jsval \<Rightarrow> string \<Rightarrow> bool" where
  "supplied v k = (case v of JObj kvs \<Rightarrow> (case map_of kvs k of None \<Rightarrow> False | Some x \<Rightarrow> x \<noteq> JUndefined) | _ \<Rightarrow> False)"

definition lacks :: "jsval \<Rightarrow> string \<Rightarrow> bool" where
  "lacks v k = (\<not> supplied v k)"

text \<open>
  The identifier that an options object gives under the key \<open>k\<close>, when it gives one that
  counts for the guard \<open>if (options.k)\<close>: a property of the object with a truthy value.
\<close>

definition given_identifier :: "jsval \<Rightarrow> string \<Rightarrow> jsval option" where
  "given_identifier v k =
     (case v of
        JObj kvs \<Rightarrow>
          (case map_of kvs k of
             None \<Rightarrow> None
           | Some x \<Rightarrow> if js_truthy x then Some x else None)
      | _ \<Rightarrow> None)"

text \<open>
  The expected status of each operation, as the table of external interfaces in the
  spec lists it.
\<close>

fun expected_status :: "call \<Rightarrow> int" where
  "expected_status (UserStorage_find a b) = 200"
| "expected_status (UserStorage_create a b) = 201"
| "expected_status (UserStorage_update a b) = 204"
| "expected_status (UserStorage_remove a b) = 204"
| "expected_status (UserStorage_triggerChangedUsersSync a b) = 200"
| "expected_status (UserStorage_triggerFullSync a b) = 200"
| "expected_status (UserStorage_removeImportedUsers a b) = 200"
| "expected_status (UserStorage_unlinkImportedUsers a b) = 200"
| "expected_status (IdentityProvider_find a b) = 200"
| "expected_status (IdentityProvider_create a b) = 201"
| "expected_status (IdentityProvider_update a b) = 204"
| "expected_status (IdentityProvider_remove a b) = 204"
| "expected_status (IdentityProvider_exportConfiguration a b) = 200"
| "expected_status (AuthenticationFlow_find a b c) = 200"
| "expected_status (AuthenticationFlow_update a b c) = 204"

fun is_remove :: "call \<Rightarrow> bool" where
  "is_remove (UserStorage_remove a b) = True"
| "is_remove (IdentityProvider_remove a b) = True"
| "is_remove c = False"

fun is_update :: "call \<Rightarrow> bool" where
  "is_update (UserStorage_update a b) = True"
| "is_update (IdentityProvider_update a b) = True"
| "is_update (AuthenticationFlow_update a b c) = True"
| "is_update c = False"

fun is_create :: "call \<Rightarrow> bool" where
  "is_create (UserStorage_create a b) = True"
| "is_create (IdentityProvider_create a b) = True"
| "is_create c = False"

section \<open>Example clients and servers\<close>

text \<open>
  A client with its token, and servers for the situations of the properties below: one
  that cannot be reached, one that answers 400 with an error body, one that answers 200,
  one that creates a resource (201, the identifier in the \<open>Location\<close> header) and then
  lets it be read, one whose \<open>Location\<close> header holds the bare identifier, and one that
  answers 201 without a \<open>Location\<close> header.
\<close>

definition example_client :: client where
  "example_client = \<lparr>ident = 1, baseUrl = ''https://host''\<rparr>"

definition example_privates :: privates_map where
  "example_privates c = \<lparr>accessToken = ''token-1''\<rparr>"

definition example_world :: world where
  "example_world = \<lparr>privates = example_privates, sent = []\<rparr>"

definition example_entity :: jsval where
  "example_entity = JObj [(''name'', JStr ''ldap'')]"

definition found_body :: jsval where
  "found_body = JObj [(''id'', JStr ''abc-123'')]"

definition ok_response :: response where
  "ok_response = \<lparr>statusCode = 200, headers = Map.empty\<rparr>"

definition invalid_response :: response where
  "invalid_response = \<lparr>statusCode = 400, headers = Map.empty\<rparr>"

definition invalid_body :: jsval where
  "invalid_body = JObj [(''error'', JStr ''invalid'')]"

definition created_location :: string where
  "created_location = ''https://host/admin/realms/master/components/abc-123''"

definition created_response :: response where
  "created_response = \<lparr>statusCode = 201, headers = [''location'' \<mapsto> created_location]\<rparr>"

definition bare_response :: response where
  "bare_response = \<lparr>statusCode = 201, headers = [''location'' \<mapsto> ''abc-123'']\<rparr>"

definition no_location_response :: response where
  "no_location_response = \<lparr>statusCode = 201, headers = Map.empty\<rparr>"

definition refusing_server :: server where
  "refusing_server log r = Failed (TransportError ''ECONNREFUSED'')"

definition invalid_server :: server where
  "invalid_server log r = Completed invalid_response invalid_body"

definition ok_server :: server where
  "ok_server log r = Completed ok_response found_body"

definition creating_server :: server where
  "creating_server log r =
     (if http_method r = Some ''POST'' then Completed created_response (JStr [])
      else Completed ok_response found_body)"

definition bare_location_server :: server where
  "bare_location_server log r =
     (if http_method r = Some ''POST'' then Completed bare_response (JStr [])
      else Completed ok_response found_body)"

definition no_location_server :: server where
  "no_location_server log r = Completed no_location_response (JStr [])"

section \<open>Facts about the helpers\<close>

lemmas operation_defs =
  userStorage_find_def userStorage_create_def userStorage_update_def userStorage_remove_def
  triggerChangedUsersSync_def triggerFullSync_def removeImportedUsers_def
  unlinkImportedUsers_def identityProvider_find_def identityProvider_create_def
  identityProvider_update_def identityProvider_remove_def exportConfiguration_def
  authenticationFlow_find_def authenticationFlow_update_def

lemmas descriptor_defs =
  userStorage_find_req_def userStorage_create_req_def userStorage_update_req_def
  userStorage_remove_req_def triggerChangedUsersSync_req_def triggerFullSync_req_def
  removeImportedUsers_req_def unlinkImportedUsers_req_def identityProvider_find_req_def
  identityProvider_create_req_def identityProvider_update_req_def
  identityProvider_remove_req_def exportConfiguration_req_def
  authenticationFlow_find_req_def authenticationFlow_update_req_def

lemmas example_defs =
  example_client_def example_privates_def example_world_def privates_get_def

text \<open>After \<open>v || {}\<close> a property can always be read.\<close>

lemma js_get_or_total: "\<exists>x. js_get (js_or v (JObj [])) k = Inr x"
  by (cases v) (auto simp: js_or_def split: option.splits)

text \<open>
  What the matcher computes: at a given start the pattern matches exactly when the rest
  of the input holds a slash and no line terminator, and the group is then what follows
  the last slash.
\<close>

lemma slash_not_terminator: "\<not> line_terminator CHR ''/''"
  by (simp add: line_terminator_def)

lemma backtrack_found: "slash_group_end rest = Some g \<Longrightarrow> backtrack taken rest = Some g"
  by (cases taken) simp_all

lemma backtrack_blocked:
  "line_terminator l \<Longrightarrow> backtrack taken (xs @ l # rest) = None"
proof (induction taken arbitrary: xs)
  case Nil
  then show ?case
    by (cases xs) (auto simp: slash_group_end_def slash_not_terminator list_ex_iff)
next
  case (Cons p taken)
  have "slash_group_end (xs @ l # rest) = None"
    using Cons.prems by (cases xs) (auto simp: slash_group_end_def slash_not_terminator list_ex_iff)
  moreover have "backtrack taken ((p # xs) @ l # rest) = None"
    using Cons by blast
  ultimately show ?case by simp
qed

lemma after_last_slash_snoc:
  "after_last_slash (xs @ [p]) = (if p = CHR ''/'' then [] else after_last_slash xs @ [p])"
  by (simp add: after_last_slash_def)

lemma backtrack_plain:
  "\<not> list_ex line_terminator taken \<Longrightarrow> \<not> list_ex line_terminator rest \<Longrightarrow>
   CHR ''/'' \<notin> set rest \<Longrightarrow>
   backtrack taken rest =
     (if CHR ''/'' \<in> set taken then Some (after_last_slash (rev taken) @ rest) else None)"
proof (induction taken arbitrary: rest)
  case Nil
  then show ?case by (cases rest) (auto simp: slash_group_end_def)
next
  case (Cons p taken)
  have none: "slash_group_end rest = None"
    using Cons.prems by (cases rest) (auto simp: slash_group_end_def)
  show ?case
  proof (cases "p = CHR ''/''")
    case True
    with Cons.prems have "slash_group_end (p # rest) = Some rest"
      by (simp add: slash_group_end_def)
    then have "backtrack taken (p # rest) = Some rest"
      by (rule backtrack_found)
    with none True show ?thesis by (simp add: after_last_slash_snoc)
  next
    case False
    with Cons.prems have "backtrack taken (p # rest) =
        (if CHR ''/'' \<in> set taken then Some (after_last_slash (rev taken) @ p # rest) else None)"
      by (intro Cons.IH) auto
    with none False show ?thesis by (simp add: after_last_slash_snoc)
  qed
qed

lemma match_here_eq:
  "match_here s =
     (if list_ex line_terminator s \<or> CHR ''/'' \<notin> set s then None
      else Some (after_last_slash s))"
proof (cases "list_ex line_terminator s")
  case True
  then have "dropWhile (\<lambda>c. \<not> line_terminator c) s \<noteq> []"
    by (auto simp: list_ex_iff)
  then obtain l rest where split: "dropWhile (\<lambda>c. \<not> line_terminator c) s = l # rest"
    by (cases "dropWhile (\<lambda>c. \<not> line_terminator c) s") auto
  then have "line_terminator l"
    using hd_dropWhile [of "\<lambda>c. \<not> line_terminator c" s] by auto
  then have "backtrack (rev (takeWhile (\<lambda>c. \<not> line_terminator c) s)) ([] @ l # rest) = None"
    by (rule backtrack_blocked)
  with True split show ?thesis by (simp add: match_here_def)
next
  case False
  then have all: "\<forall>c\<in>set s. \<not> line_terminator c"
    by (simp add: list_ex_iff)
  then have whole: "takeWhile (\<lambda>c. \<not> line_terminator c) s = s"
      "dropWhile (\<lambda>c. \<not> line_terminator c) s = []"
    by simp_all
  have "\<not> list_ex line_terminator (rev s)"
    using all by (simp add: list_ex_iff)
  then have "backtrack (rev s) [] =
      (if CHR ''/'' \<in> set s then Some (after_last_slash s) else None)"
    using backtrack_plain [of "rev s" "[]"] by simp
  with False show ?thesis
    unfolding match_here_def whole by simp
qed

lemma replace_location_no_slash:
  "CHR ''/'' \<notin> set s \<Longrightarrow> replace_location s = s"
  by (induction s) (auto simp: match_here_eq)

lemma after_last_slash_no_slash:
  "CHR ''/'' \<notin> set s \<Longrightarrow> after_last_slash s = s"
proof -
  assume "CHR ''/'' \<notin> set s"
  then have "\<forall>x\<in>set (rev s). x \<noteq> CHR ''/''"
    by auto
  then have all: "takeWhile (\<lambda>c. c \<noteq> CHR ''/'') (rev s) = rev s"
    by (simp only: takeWhile_eq_all_conv)
  show ?thesis unfolding after_last_slash_def all by (rule rev_rev_ident)
qed

text \<open>
  On a string without line terminators the replacement yields what follows the last
  slash, and the whole string when there is no slash.
\<close>

lemma replace_location_plain:
  "\<not> list_ex line_terminator s \<Longrightarrow> replace_location s = after_last_slash s"
proof (cases s)
  case Nil
  then show ?thesis by (simp add: after_last_slash_def)
next
  case (Cons c cs)
  assume plain: "\<not> list_ex line_terminator s"
  show ?thesis
  proof (cases "CHR ''/'' \<in> set s")
    case True
    with plain Cons show ?thesis by (simp add: match_here_eq)
  next
    case False
    then show ?thesis
      by (simp add: replace_location_no_slash after_last_slash_no_slash)
  qed
qed

lemma after_last_slash_Cons:
  "after_last_slash (c # cs) =
     (if CHR ''/'' \<in> set cs then after_last_slash cs
      else if c = CHR ''/'' then cs else c # cs)"
  by (auto simp: after_last_slash_def takeWhile_append
        after_last_slash_no_slash[unfolded after_last_slash_def])

lemma segments_nonempty: "segments s \<noteq> []"
  by (induction s) (auto split: list.splits)

lemma segments_no_slash: "CHR ''/'' \<notin> set s \<Longrightarrow> segments s = [s]"
  by (induction s) auto

lemma segments_slash: "CHR ''/'' \<in> set s \<Longrightarrow> \<exists>x y ys. segments s = x # y # ys"
proof (induction s)
  case Nil
  then show ?case by simp
next
  case (Cons c cs)
  show ?case
  proof (cases "c = CHR ''/''")
    case True
    then show ?thesis using segments_nonempty[of cs] by (cases "segments cs") auto
  next
    case False
    with Cons show ?thesis by auto
  qed
qed

lemma last_segments_Cons:
  "last (segments (c # cs)) =
     (if CHR ''/'' \<in> set cs then last (segments cs)
      else if c = CHR ''/'' then cs else c # cs)"
proof (cases "CHR ''/'' \<in> set cs")
  case True
  then obtain x y ys where "segments cs = x # y # ys"
    using segments_slash by blast
  then show ?thesis using True by simp
next
  case False
  then show ?thesis by (simp add: segments_no_slash)
qed

text \<open>The group of the pattern is the final path segment in the spec's sense.\<close>

lemma after_last_slash_final: "after_last_slash s = final_path_segment s"
  unfolding final_path_segment_def
proof (induction s)
  case Nil
  show ?case by (simp add: after_last_slash_def)
next
  case (Cons c cs)
  then show ?case
    by (simp only: after_last_slash_Cons last_segments_Cons)
qed

lemma identifier_truthy:
  "js_get (js_or options (JObj [])) k = Inr v \<Longrightarrow>
   given_identifier options k = (if js_truthy v then Some v else None)"
  by (cases options) (auto simp: given_identifier_def js_or_def split: option.splits if_splits)

lemma lacks_reads_undefined:
  "lacks entity k \<Longrightarrow> js_get (js_or entity (JObj [])) k = Inr JUndefined"
  by (cases entity) (auto simp: lacks_def supplied_def js_or_def split: option.splits)

lemma created_location_plain: "\<not> list_ex line_terminator created_location"
  by (simp add: created_location_def line_terminator_def)

lemma created_location_segment: "final_path_segment created_location = ''abc-123''"
  by (simp add: created_location_def final_path_segment_def)

lemma replace_created_location: "replace_location created_location = ''abc-123''"
  by (simp add: replace_location_plain created_location_plain after_last_slash_final
        created_location_segment)

section \<open>The request descriptors\<close>

text \<open>
  Building a descriptor never fails: the property reads of \<open>find\<close> and \<open>update\<close> come
  after \<open>|| {}\<close>. Every descriptor carries the token of the store it was built from.
\<close>

lemma userStorage_find_req_shape:
  "\<exists>r. userStorage_find_req client ps realm options = Inr r
       \<and> auth_bearer r = accessToken (privates_get ps client) \<and> json r = Some True"
  using js_get_or_total [of options "''id''"]
  by (auto simp: userStorage_find_req_def Let_def)

lemma identityProvider_find_req_shape:
  "\<exists>r. identityProvider_find_req client ps realm options = Inr r
       \<and> auth_bearer r = accessToken (privates_get ps client) \<and> json r = Some True"
  using js_get_or_total [of options "''alias''"]
  by (auto simp: identityProvider_find_req_def Let_def)

lemma userStorage_update_req_shape:
  "\<exists>r. userStorage_update_req client ps realm entity = Inr r
       \<and> auth_bearer r = accessToken (privates_get ps client) \<and> json r = Some True"
  using js_get_or_total [of entity "''id''"]
  by (auto simp: userStorage_update_req_def Let_def)

lemma identityProvider_update_req_shape:
  "\<exists>r. identityProvider_update_req client ps realm entity = Inr r
       \<and> auth_bearer r = accessToken (privates_get ps client) \<and> json r = Some True"
  using js_get_or_total [of entity "''alias''"]
  by (auto simp: identityProvider_update_req_def Let_def)

lemma request_of_shape:
  "\<exists>r. request_of client ps call = Inr r
       \<and> auth_bearer r = accessToken (privates_get ps client)
       \<and> json r = (if is_remove call then None else Some True)"
proof (cases call)
  case (UserStorage_find a b)
  then show ?thesis using userStorage_find_req_shape [of client ps a b] by simp
next
  case (UserStorage_update a b)
  then show ?thesis using userStorage_update_req_shape [of client ps a b] by simp
next
  case (IdentityProvider_find a b)
  then show ?thesis using identityProvider_find_req_shape [of client ps a b] by simp
next
  case (IdentityProvider_update a b)
  then show ?thesis using identityProvider_update_req_shape [of client ps a b] by simp
qed (simp_all add: descriptor_defs Let_def)

section \<open>The log of requests\<close>

lemma userStorage_find_world:
  "userStorage_find_req client (privates w) realm options = Inr r \<Longrightarrow>
   snd (userStorage_find client srv realm options w) = w\<lparr>sent := sent w @ [r]\<rparr>"
  by (simp add: userStorage_find_def request_def split: reply.splits)

lemma identityProvider_find_world:
  "identityProvider_find_req client (privates w) realm options = Inr r \<Longrightarrow>
   snd (identityProvider_find client srv realm options w) = w\<lparr>sent := sent w @ [r]\<rparr>"
  by (simp add: identityProvider_find_def request_def split: reply.splits)

text \<open>\<open>create\<close>, with \<open>request\<close> unfolded: the four ways its callback can go.\<close>

lemma userStorage_create_run:
  "userStorage_create client srv realm entity w =
     (case srv (sent w) (userStorage_create_req client (privates w) realm entity) of
        Failed err \<Rightarrow>
          (RejectedErr err, w\<lparr>sent := sent w @ [userStorage_create_req client (privates w) realm entity]\<rparr>)
      | Completed resp b \<Rightarrow>
          if statusCode resp \<noteq> 201
          then (Rejected b, w\<lparr>sent := sent w @ [userStorage_create_req client (privates w) realm entity]\<rparr>)
          else (case headers resp ''location'' of
                  None \<Rightarrow>
                    (Uncaught TypeError,
                     w\<lparr>sent := sent w @ [userStorage_create_req client (privates w) realm entity]\<rparr>)
                | Some location \<Rightarrow>
                    userStorage_find client srv realm (JObj [(''id'', JStr (replace_location location))])
                      (w\<lparr>sent := sent w @ [userStorage_create_req client (privates w) realm entity]\<rparr>)))"
  by (simp add: userStorage_create_def request_def split: reply.splits option.splits)

lemma userStorage_create_world:
  "snd (userStorage_create client srv realm entity w)
     = w\<lparr>sent := sent w @ [userStorage_create_req client (privates w) realm entity]\<rparr>
   \<or> (\<exists>resp b g. srv (sent w) (userStorage_create_req client (privates w) realm entity) = Completed resp b
         \<and> statusCode resp = 201
         \<and> auth_bearer g = accessToken (privates_get (privates w) client)
         \<and> snd (userStorage_create client srv realm entity w)
             = w\<lparr>sent := sent w @ [userStorage_create_req client (privates w) realm entity, g]\<rparr>)"
proof -
  let ?post = "userStorage_create_req client (privates w) realm entity"
  let ?w1 = "w\<lparr>sent := sent w @ [?post]\<rparr>"
  have follow: "\<exists>g. snd (userStorage_find client srv realm options ?w1) = ?w1\<lparr>sent := sent ?w1 @ [g]\<rparr>
      \<and> auth_bearer g = accessToken (privates_get (privates w) client)" for options
    using userStorage_find_req_shape [of client "privates ?w1" realm options]
    by (auto simp: userStorage_find_world)
  show ?thesis
  proof (cases "srv (sent w) ?post")
    case (Failed err)
    then show ?thesis by (simp add: userStorage_create_run)
  next
    case (Completed resp b)
    show ?thesis
    proof (cases "statusCode resp = 201")
      case False
      with Completed show ?thesis by (simp add: userStorage_create_run)
    next
      case True
      show ?thesis
      proof (cases "headers resp ''location''")
        case None
        with True Completed show ?thesis by (simp add: userStorage_create_run)
      next
        case (Some loc)
        from follow [of "JObj [(''id'', JStr (replace_location loc))]"]
        obtain g where "snd (userStorage_find client srv realm (JObj [(''id'', JStr (replace_location loc))]) ?w1)
              = ?w1\<lparr>sent := sent ?w1 @ [g]\<rparr>"
          and "auth_bearer g = accessToken (privates_get (privates w) client)"
          by blast
        with Some True Completed show ?thesis
          by (intro disjI2 exI [of _ resp] exI [of _ b] exI [of _ g])
             (simp add: userStorage_create_run)
      qed
    qed
  qed
qed

lemma identityProvider_create_run:
  "identityProvider_create client srv realm entity w =
     (case srv (sent w) (identityProvider_create_req client (privates w) realm entity) of
        Failed err \<Rightarrow>
          (RejectedErr err, w\<lparr>sent := sent w @ [identityProvider_create_req client (privates w) realm entity]\<rparr>)
      | Completed resp b \<Rightarrow>
          if statusCode resp \<noteq> 201
          then (Rejected b, w\<lparr>sent := sent w @ [identityProvider_create_req client (privates w) realm entity]\<rparr>)
          else (case headers resp ''location'' of
                  None \<Rightarrow>
                    (Uncaught TypeError,
                     w\<lparr>sent := sent w @ [identityProvider_create_req client (privates w) realm entity]\<rparr>)
                | Some location \<Rightarrow>
                    identityProvider_find client srv realm (JObj [(''alias'', JStr (replace_location location))])
                      (w\<lparr>sent := sent w @ [identityProvider_create_req client (privates w) realm entity]\<rparr>)))"
  by (simp add: identityProvider_create_def request_def split: reply.splits option.splits)

lemma identityProvider_create_world:
  "snd (identityProvider_create client srv realm entity w)
     = w\<lparr>sent := sent w @ [identityProvider_create_req client (privates w) realm entity]\<rparr>
   \<or> (\<exists>resp b g. srv (sent w) (identityProvider_create_req client (privates w) realm entity) = Completed resp b
         \<and> statusCode resp = 201
         \<and> auth_bearer g = accessToken (privates_get (privates w) client)
         \<and> snd (identityProvider_create client srv realm entity w)
             = w\<lparr>sent := sent w @ [identityProvider_create_req client (privates w) realm entity, g]\<rparr>)"
proof -
  let ?post = "identityProvider_create_req client (privates w) realm entity"
  let ?w1 = "w\<lparr>sent := sent w @ [?post]\<rparr>"
  have follow: "\<exists>g. snd (identityProvider_find client srv realm options ?w1) = ?w1\<lparr>sent := sent ?w1 @ [g]\<rparr>
      \<and> auth_bearer g = accessToken (privates_get (privates w) client)" for options
    using identityProvider_find_req_shape [of client "privates ?w1" realm options]
    by (auto simp: identityProvider_find_world)
  show ?thesis
  proof (cases "srv (sent w) ?post")
    case (Failed err)
    then show ?thesis by (simp add: identityProvider_create_run)
  next
    case (Completed resp b)
    show ?thesis
    proof (cases "statusCode resp = 201")
      case False
      with Completed show ?thesis by (simp add: identityProvider_create_run)
    next
      case True
      show ?thesis
      proof (cases "headers resp ''location''")
        case None
        with True Completed show ?thesis by (simp add: identityProvider_create_run)
      next
        case (Some loc)
        from follow [of "JObj [(''alias'', JStr (replace_location loc))]"]
        obtain g where "snd (identityProvider_find client srv realm (JObj [(''alias'', JStr (replace_location loc))]) ?w1)
              = ?w1\<lparr>sent := sent ?w1 @ [g]\<rparr>"
          and "auth_bearer g = accessToken (privates_get (privates w) client)"
          by blast
        with Some True Completed show ?thesis
          by (intro disjI2 exI [of _ resp] exI [of _ b] exI [of _ g])
             (simp add: identityProvider_create_run)
      qed
    qed
  qed
qed

lemma invoke_world:
  assumes "request_of client (privates w) call = Inr r"
  shows "\<exists>rs. snd (invoke client srv call w) = w\<lparr>sent := sent w @ r # rs\<rparr>
           \<and> (\<forall>x\<in>set rs. auth_bearer x = accessToken (privates_get (privates w) client))"
proof (cases call)
  case (UserStorage_create a b)
  with assms userStorage_create_world [of client srv a b w] show ?thesis by auto
next
  case (IdentityProvider_create a b)
  with assms identityProvider_create_world [of client srv a b w] show ?thesis by auto
qed (use assms in \<open>auto simp: operation_defs request_def split: reply.splits\<close>)

section \<open>Settling the promise\<close>

text \<open>
  C8. For every operation of the three modules: when the transport fails on the request,
  the promise is rejected with the transport's error itself, and nothing else happens
  (the log holds the one request, no body is looked at).
\<close>

theorem transport_error_propagated:
  assumes "request_of client (privates w) call = Inr req"
    and "srv (sent w) req = Failed err"
  shows "invoke client srv call w = (RejectedErr err, w\<lparr>sent := sent w @ [req]\<rparr>)"
  using assms by (cases call) (auto simp: operation_defs request_def)

theorem transport_error_propagated_witness:
  "request_of example_client (privates example_world)
       (UserStorage_remove (JStr ''master'') (JStr ''abc-123''))
     = Inr \<lparr>url = ''https://host/admin/realms/master/components/abc-123'',
            auth_bearer = ''token-1'', json = None, http_method = Some ''DELETE'',
            body = None, qs = None\<rparr>
   \<and> refusing_server (sent example_world)
        \<lparr>url = ''https://host/admin/realms/master/components/abc-123'',
         auth_bearer = ''token-1'', json = None, http_method = Some ''DELETE'',
         body = None, qs = None\<rparr>
     = Failed (TransportError ''ECONNREFUSED'')
   \<and> fst (invoke example_client refusing_server
        (UserStorage_remove (JStr ''master'') (JStr ''abc-123'')) example_world)
     = RejectedErr (TransportError ''ECONNREFUSED'')"
proof -
  let ?req = "\<lparr>url = ''https://host/admin/realms/master/components/abc-123'',
               auth_bearer = ''token-1'', json = None, http_method = Some ''DELETE'',
               body = None, qs = None\<rparr>"
  have built: "request_of example_client (privates example_world)
      (UserStorage_remove (JStr ''master'') (JStr ''abc-123'')) = Inr ?req"
    by (simp add: userStorage_remove_req_def example_defs)
  have failed: "refusing_server (sent example_world) ?req = Failed (TransportError ''ECONNREFUSED'')"
    by (simp add: refusing_server_def)
  from transport_error_propagated [where srv = refusing_server, OF built failed] built failed
  show ?thesis by simp
qed

text \<open>
  C2. For every operation of the three modules: when the exchange completes with a status
  other than the expected one, the promise is rejected with the response body as the
  transport delivered it.
\<close>

theorem status_mismatch_rejects_body:
  assumes "request_of client (privates w) call = Inr req"
    and "srv (sent w) req = Completed resp body'"
    and "statusCode resp \<noteq> expected_status call"
  shows "invoke client srv call w = (Rejected body', w\<lparr>sent := sent w @ [req]\<rparr>)"
  using assms by (cases call) (auto simp: operation_defs request_def)

theorem status_mismatch_rejects_body_witness:
  "request_of example_client (privates example_world)
       (AuthenticationFlow_update (JStr ''master'') (JStr ''browser'') (JArr []))
     = Inr \<lparr>url = ''https://host/admin/realms/master/authentication/flows/browser/executions'',
            auth_bearer = ''token-1'', json = Some True, http_method = Some ''PUT'',
            body = Some (JArr []), qs = None\<rparr>
   \<and> invalid_server (sent example_world)
        \<lparr>url = ''https://host/admin/realms/master/authentication/flows/browser/executions'',
         auth_bearer = ''token-1'', json = Some True, http_method = Some ''PUT'',
         body = Some (JArr []), qs = None\<rparr>
     = Completed invalid_response invalid_body
   \<and> statusCode invalid_response
     \<noteq> expected_status (AuthenticationFlow_update (JStr ''master'') (JStr ''browser'') (JArr []))
   \<and> fst (invoke example_client invalid_server
        (AuthenticationFlow_update (JStr ''master'') (JStr ''browser'') (JArr [])) example_world)
     = Rejected (JObj [(''error'', JStr ''invalid'')])
   \<and> statusCode invalid_response = 400"
proof -
  let ?req = "\<lparr>url = ''https://host/admin/realms/master/authentication/flows/browser/executions'',
               auth_bearer = ''token-1'', json = Some True, http_method = Some ''PUT'',
               body = Some (JArr []), qs = None\<rparr>"
  let ?call = "AuthenticationFlow_update (JStr ''master'') (JStr ''browser'') (JArr [])"
  have built: "request_of example_client (privates example_world) ?call = Inr ?req"
    by (simp add: authenticationFlow_update_req_def example_defs)
  have completed: "invalid_server (sent example_world) ?req
      = Completed invalid_response invalid_body"
    by (simp add: invalid_server_def)
  have mismatch: "statusCode invalid_response \<noteq> expected_status ?call"
    by (simp add: invalid_response_def)
  from status_mismatch_rejects_body [where srv = invalid_server, OF built completed mismatch]
    built completed mismatch
  show ?thesis by (simp add: invalid_response_def invalid_body_def)
qed

text \<open>
  C5. For every update (three modules) and every remove (user storage, identity
  provider): when the exchange completes, the promise is resolved with the body exactly
  when the status is 204 and rejected with the body for every other status, 200 among
  them.
\<close>

theorem update_remove_settle_on_204:
  assumes "is_update call \<or> is_remove call"
    and "request_of client (privates w) call = Inr req"
    and "srv (sent w) req = Completed resp body'"
  shows "fst (invoke client srv call w) =
           (if statusCode resp = 204 then Resolved body' else Rejected body')"
  using assms by (cases call) (auto simp: operation_defs request_def)

theorem update_remove_settle_on_204_witness:
  "(is_update (IdentityProvider_remove (JStr ''master'') (JStr ''github''))
      \<or> is_remove (IdentityProvider_remove (JStr ''master'') (JStr ''github'')))
   \<and> request_of example_client (privates example_world)
        (IdentityProvider_remove (JStr ''master'') (JStr ''github''))
     = Inr \<lparr>url = ''https://host/admin/realms/master/identity-provider/instances/github'',
            auth_bearer = ''token-1'', json = None, http_method = Some ''DELETE'',
            body = None, qs = None\<rparr>
   \<and> ok_server (sent example_world)
        \<lparr>url = ''https://host/admin/realms/master/identity-provider/instances/github'',
         auth_bearer = ''token-1'', json = None, http_method = Some ''DELETE'',
         body = None, qs = None\<rparr>
     = Completed ok_response found_body
   \<and> statusCode ok_response = 200
   \<and> fst (invoke example_client ok_server
        (IdentityProvider_remove (JStr ''master'') (JStr ''github'')) example_world)
     = Rejected found_body"
proof -
  let ?req = "\<lparr>url = ''https://host/admin/realms/master/identity-provider/instances/github'',
               auth_bearer = ''token-1'', json = None, http_method = Some ''DELETE'',
               body = None, qs = None\<rparr>"
  let ?call = "IdentityProvider_remove (JStr ''master'') (JStr ''github'')"
  have kind: "is_update ?call \<or> is_remove ?call"
    by simp
  have built: "request_of example_client (privates example_world) ?call = Inr ?req"
    by (simp add: identityProvider_remove_req_def example_defs)
  have completed: "ok_server (sent example_world) ?req = Completed ok_response found_body"
    by (simp add: ok_server_def)
  from update_remove_settle_on_204 [where srv = ok_server, OF kind built completed]
    kind built completed
  show ?thesis by (simp add: ok_response_def)
qed

section \<open>The request descriptors of the operations\<close>

text \<open>
  C4, as amended. Every operation of the three modules but the two remove operations
  builds its descriptor with \<open>json: true\<close>; the descriptors of the remove operations
  have no \<open>json\<close> property: the one request that a remove issues holds the URL of the
  resource, the bearer token and the method \<open>DELETE\<close>, and neither \<open>json\<close> nor a body
  nor a \<open>qs\<close>.
\<close>

theorem json_flag_except_remove:
  assumes "request_of client ps call = Inr req"
  shows "json req = (if is_remove call then None else Some True)
       \<and> (is_remove call \<longrightarrow>
            http_method req = Some ''DELETE'' \<and> body req = None \<and> qs req = None
            \<and> auth_bearer req = accessToken (privates_get ps client))
       \<and> issued w (snd (invoke client srv (UserStorage_remove realm ident') w))
           = [\<lparr>url = baseUrl client @ ''/admin/realms/'' @ to_string realm @ ''/components/''
                      @ to_string ident',
               auth_bearer = accessToken (privates_get (privates w) client),
               json = None, http_method = Some ''DELETE'', body = None, qs = None\<rparr>]
       \<and> issued w (snd (invoke client srv (IdentityProvider_remove realm alias) w))
           = [\<lparr>url = baseUrl client @ ''/admin/realms/'' @ to_string realm
                      @ ''/identity-provider/instances/'' @ to_string alias,
               auth_bearer = accessToken (privates_get (privates w) client),
               json = None, http_method = Some ''DELETE'', body = None, qs = None\<rparr>]"
proof (intro conjI)
  show "json req = (if is_remove call then None else Some True)"
    using assms request_of_shape [of client ps call] by auto
  show "is_remove call \<longrightarrow>
            http_method req = Some ''DELETE'' \<and> body req = None \<and> qs req = None
            \<and> auth_bearer req = accessToken (privates_get ps client)"
    using assms
    by (cases call) (auto simp: userStorage_remove_req_def identityProvider_remove_req_def)
  show "issued w (snd (invoke client srv (UserStorage_remove realm ident') w))
           = [\<lparr>url = baseUrl client @ ''/admin/realms/'' @ to_string realm @ ''/components/''
                      @ to_string ident',
               auth_bearer = accessToken (privates_get (privates w) client),
               json = None, http_method = Some ''DELETE'', body = None, qs = None\<rparr>]"
    by (simp add: userStorage_remove_def userStorage_remove_req_def request_def issued_def
          split: reply.splits)
  show "issued w (snd (invoke client srv (IdentityProvider_remove realm alias) w))
           = [\<lparr>url = baseUrl client @ ''/admin/realms/'' @ to_string realm
                      @ ''/identity-provider/instances/'' @ to_string alias,
               auth_bearer = accessToken (privates_get (privates w) client),
               json = None, http_method = Some ''DELETE'', body = None, qs = None\<rparr>]"
    by (simp add: identityProvider_remove_def identityProvider_remove_req_def request_def
          issued_def split: reply.splits)
qed

theorem json_flag_except_remove_witness:
  "request_of example_client example_privates (UserStorage_create (JStr ''master'') example_entity)
     = Inr \<lparr>url = ''https://host/admin/realms/master/components'', auth_bearer = ''token-1'',
            json = Some True, http_method = Some ''POST'', body = Some example_entity, qs = None\<rparr>
   \<and> json \<lparr>url = ''https://host/admin/realms/master/components'', auth_bearer = ''token-1'',
            json = Some True, http_method = Some ''POST'', body = Some example_entity, qs = None\<rparr>
     = Some True
   \<and> is_remove (UserStorage_create (JStr ''master'') example_entity) = False
   \<and> is_remove (IdentityProvider_remove (JStr ''master'') (JStr ''github''))
   \<and> request_of example_client example_privates
         (IdentityProvider_remove (JStr ''master'') (JStr ''github''))
     = Inr \<lparr>url = ''https://host/admin/realms/master/identity-provider/instances/github'',
            auth_bearer = ''token-1'', json = None, http_method = Some ''DELETE'',
            body = None, qs = None\<rparr>
   \<and> issued example_world
         (snd (invoke example_client ok_server (UserStorage_remove (JStr ''master'') (JStr ''abc-123''))
                example_world))
     = [\<lparr>url = ''https://host/admin/realms/master/components/abc-123'',
         auth_bearer = ''token-1'', json = None, http_method = Some ''DELETE'',
         body = None, qs = None\<rparr>]"
proof -
  let ?create = "UserStorage_create (JStr ''master'') example_entity"
  let ?remove = "IdentityProvider_remove (JStr ''master'') (JStr ''github'')"
  let ?post = "\<lparr>url = ''https://host/admin/realms/master/components'', auth_bearer = ''token-1'',
            json = Some True, http_method = Some ''POST'', body = Some example_entity, qs = None\<rparr>"
  have built: "request_of example_client example_privates ?create = Inr ?post"
    by (simp add: userStorage_create_req_def example_client_def example_privates_def privates_get_def)
  obtain del where del: "request_of example_client example_privates ?remove = Inr del"
    by simp
  have kind: "is_remove ?remove" "is_remove ?create = False"
    by simp_all
  from json_flag_except_remove [OF built, of example_world ok_server "JStr ''master''"
      "JStr ''abc-123''" "JStr ''github''"]
    json_flag_except_remove [OF del, of example_world ok_server "JStr ''master''"
      "JStr ''abc-123''" "JStr ''github''"]
    built del kind
  show ?thesis
    by (simp add: identityProvider_remove_req_def example_defs)
qed

text \<open>
  C4 as stated fails: the descriptors that the remove operations build hold the
  properties \<open>url\<close>, \<open>auth\<close> and \<open>method\<close> only.
\<close>

theorem remove_without_json_flag:
  "json (userStorage_remove_req example_client example_privates (JStr ''master'') (JStr ''abc-123''))
     = None
   \<and> json (identityProvider_remove_req example_client example_privates (JStr ''master'') (JStr ''github''))
     = None"
  by (simp add: userStorage_remove_req_def identityProvider_remove_req_def)

text \<open>
  C6. Every request that a call issues (the follow-up request of create among them)
  carries as its bearer the access token that the private store holds for the client
  when the call is made; so after the token has been rotated to \<open>t\<close>, the requests of
  the next call carry \<open>t\<close>. The operation takes the store with the state it is called
  in, not with the client it was made from. (Within one call the store stays as it is: no
  refresh is interleaved between the two requests of a create.)
\<close>

theorem bearer_read_at_call_time:
  "issued w (snd (invoke client srv call w)) \<noteq> []
   \<and> (\<forall>r\<in>set (issued w (snd (invoke client srv call w))).
         auth_bearer r = accessToken (privates_get (privates w) client))
   \<and> (\<forall>r\<in>set (issued (rotate_token client t (snd (invoke client srv call w)))
                   (snd (invoke client srv call' (rotate_token client t (snd (invoke client srv call w)))))).
         auth_bearer r = t)"
proof -
  have current: "issued v (snd (invoke client srv c v)) \<noteq> []
      \<and> (\<forall>r\<in>set (issued v (snd (invoke client srv c v))).
            auth_bearer r = accessToken (privates_get (privates v) client))" for v c
  proof -
    obtain r where r: "request_of client (privates v) c = Inr r"
        "auth_bearer r = accessToken (privates_get (privates v) client)"
      using request_of_shape [of client "privates v" c] by blast
    from invoke_world [OF r(1), of srv] r(2) show ?thesis
      by (auto simp: issued_def)
  qed
  have "accessToken (privates_get (privates (rotate_token client t v)) client) = t" for v
    by (simp add: rotate_token_def privates_get_def)
  with current [of w call] current [of "rotate_token client t (snd (invoke client srv call w))" call']
  show ?thesis by simp
qed

theorem bearer_read_at_call_time_witness:
  "map auth_bearer (issued example_world
       (snd (invoke example_client ok_server (UserStorage_find (JStr ''master'') JUndefined) example_world)))
     = [''token-1'']
   \<and> map auth_bearer
       (issued (rotate_token example_client ''token-2''
                 (snd (invoke example_client ok_server (UserStorage_find (JStr ''master'') JUndefined)
                        example_world)))
          (snd (invoke example_client ok_server (UserStorage_remove (JStr ''master'') (JStr ''abc-123''))
                 (rotate_token example_client ''token-2''
                   (snd (invoke example_client ok_server (UserStorage_find (JStr ''master'') JUndefined)
                          example_world))))))
     = [''token-2'']"
proof -
  let ?find = "UserStorage_find (JStr ''master'') JUndefined"
  let ?remove = "UserStorage_remove (JStr ''master'') (JStr ''abc-123'')"
  let ?w1 = "snd (invoke example_client ok_server ?find example_world)"
  let ?w2 = "rotate_token example_client ''token-2'' ?w1"
  have first: "length (issued example_world ?w1) = 1"
    by (simp add: userStorage_find_def userStorage_find_req_def js_or_def request_def issued_def
          ok_server_def example_defs)
  have second: "length (issued ?w2 (snd (invoke example_client ok_server ?remove ?w2))) = 1"
    by (simp add: userStorage_remove_def request_def issued_def ok_server_def ok_response_def)
  from bearer_read_at_call_time [of example_world example_client ok_server ?find "''token-2''" ?remove]
    first second
  show ?thesis
    by (auto simp: length_Suc_conv example_defs)
qed

section \<open>The two URLs of find\<close>

text \<open>
  C3, as amended. For every find call of user storage and of the identity providers:
  when \<open>options.id\<close> (\<open>options.alias\<close>) is supplied with a truthy value, the one request
  targets the single-resource URL and has no \<open>qs\<close>; otherwise (no options, no such
  property, or a falsy one such as the empty string) it targets the collection URL and
  has the options object as \<open>qs\<close>, which is \<open>{}\<close> when no options object was given.
\<close>

theorem find_url_by_truthy_identifier:
  "(\<exists>r. issued w (snd (userStorage_find client srv realm options w)) = [r]
       \<and> (case given_identifier options ''id'' of
            Some v \<Rightarrow>
              url r = baseUrl client @ ''/admin/realms/'' @ to_string realm @ ''/components/'' @ to_string v
              \<and> qs r = None
          | None \<Rightarrow>
              url r = baseUrl client @ ''/admin/realms/'' @ to_string realm @ ''/components?parent=''
                        @ to_string realm @ ''&type=org.keycloak.storage.UserStorageProvider''
              \<and> qs r = Some (if js_truthy options then options else JObj [])))
   \<and> (\<exists>r. issued w (snd (identityProvider_find client srv realm options w)) = [r]
       \<and> (case given_identifier options ''alias'' of
            Some v \<Rightarrow>
              url r = baseUrl client @ ''/admin/realms/'' @ to_string realm
                        @ ''/identity-provider/instances/'' @ to_string v
              \<and> qs r = None
          | None \<Rightarrow>
              url r = baseUrl client @ ''/admin/realms/'' @ to_string realm @ ''/identity-provider/instances''
              \<and> qs r = Some (if js_truthy options then options else JObj [])))"
proof (intro conjI)
  obtain v where v: "js_get (js_or options (JObj [])) ''id'' = Inr v"
    using js_get_or_total by blast
  obtain r where r: "userStorage_find_req client (privates w) realm options = Inr r"
    using userStorage_find_req_shape by blast
  have sent: "issued w (snd (userStorage_find client srv realm options w)) = [r]"
    by (simp add: userStorage_find_world [OF r] issued_def)
  from r v identifier_truthy [OF v]
  have "case given_identifier options ''id'' of
            Some v \<Rightarrow>
              url r = baseUrl client @ ''/admin/realms/'' @ to_string realm @ ''/components/'' @ to_string v
              \<and> qs r = None
          | None \<Rightarrow>
              url r = baseUrl client @ ''/admin/realms/'' @ to_string realm @ ''/components?parent=''
                        @ to_string realm @ ''&type=org.keycloak.storage.UserStorageProvider''
              \<and> qs r = Some (if js_truthy options then options else JObj [])"
    by (auto simp: userStorage_find_req_def js_or_def split: if_splits)
  with sent show "\<exists>r. issued w (snd (userStorage_find client srv realm options w)) = [r]
       \<and> (case given_identifier options ''id'' of
            Some v \<Rightarrow>
              url r = baseUrl client @ ''/admin/realms/'' @ to_string realm @ ''/components/'' @ to_string v
              \<and> qs r = None
          | None \<Rightarrow>
              url r = baseUrl client @ ''/admin/realms/'' @ to_string realm @ ''/components?parent=''
                        @ to_string realm @ ''&type=org.keycloak.storage.UserStorageProvider''
              \<and> qs r = Some (if js_truthy options then options else JObj []))"
    by blast
next
  obtain v where v: "js_get (js_or options (JObj [])) ''alias'' = Inr v"
    using js_get_or_total by blast
  obtain r where r: "identityProvider_find_req client (privates w) realm options = Inr r"
    using identityProvider_find_req_shape by blast
  have sent: "issued w (snd (identityProvider_find client srv realm options w)) = [r]"
    by (simp add: identityProvider_find_world [OF r] issued_def)
  from r v identifier_truthy [OF v]
  have "case given_identifier options ''alias'' of
            Some v \<Rightarrow>
              url r = baseUrl client @ ''/admin/realms/'' @ to_string realm
                        @ ''/identity-provider/instances/'' @ to_string v
              \<and> qs r = None
          | None \<Rightarrow>
              url r = baseUrl client @ ''/admin/realms/'' @ to_string realm @ ''/identity-provider/instances''
              \<and> qs r = Some (if js_truthy options then options else JObj [])"
    by (auto simp: identityProvider_find_req_def js_or_def split: if_splits)
  with sent show "\<exists>r. issued w (snd (identityProvider_find client srv realm options w)) = [r]
       \<and> (case given_identifier options ''alias'' of
            Some v \<Rightarrow>
              url r = baseUrl client @ ''/admin/realms/'' @ to_string realm
                        @ ''/identity-provider/instances/'' @ to_string v
              \<and> qs r = None
          | None \<Rightarrow>
              url r = baseUrl client @ ''/admin/realms/'' @ to_string realm @ ''/identity-provider/instances''
              \<and> qs r = Some (if js_truthy options then options else JObj []))"
    by blast
qed

theorem find_url_by_truthy_identifier_witness:
  "given_identifier (JObj [(''id'', JStr ''abc-123'')]) ''id'' = Some (JStr ''abc-123'')
   \<and> map url (issued example_world (snd (userStorage_find example_client ok_server (JStr ''master'')
         (JObj [(''id'', JStr ''abc-123'')]) example_world)))
     = [''https://host/admin/realms/master/components/abc-123'']
   \<and> map qs (issued example_world (snd (userStorage_find example_client ok_server (JStr ''master'')
         (JObj [(''id'', JStr ''abc-123'')]) example_world)))
     = [None]
   \<and> given_identifier JUndefined ''alias'' = None
   \<and> map url (issued example_world (snd (identityProvider_find example_client ok_server (JStr ''master'')
         JUndefined example_world)))
     = [''https://host/admin/realms/master/identity-provider/instances'']
   \<and> map qs (issued example_world (snd (identityProvider_find example_client ok_server (JStr ''master'')
         JUndefined example_world)))
     = [Some (JObj [])]"
proof -
  have given: "given_identifier (JObj [(''id'', JStr ''abc-123'')]) ''id'' = Some (JStr ''abc-123'')"
      "given_identifier JUndefined ''alias'' = None"
    by (simp_all add: given_identifier_def)
  from find_url_by_truthy_identifier
      [of example_world example_client ok_server "JStr ''master''" "JObj [(''id'', JStr ''abc-123'')]"]
    find_url_by_truthy_identifier
      [of example_world example_client ok_server "JStr ''master''" JUndefined]
  show ?thesis
    unfolding given by (auto simp: example_defs)
qed

text \<open>
  C3 as stated fails: with the empty string supplied as \<open>options.id\<close>, the request goes
  to the collection URL and carries the options as \<open>qs\<close>.
\<close>

theorem find_empty_id_targets_collection:
  "supplied (JObj [(''id'', JStr [])]) ''id''
   \<and> issued example_world
       (snd (userStorage_find example_client ok_server (JStr ''master'') (JObj [(''id'', JStr [])])
              example_world))
     = [\<lparr>url = ''https://host/admin/realms/master/components?parent=master&type=org.keycloak.storage.UserStorageProvider'',
         auth_bearer = ''token-1'', json = Some True, http_method = None, body = None,
         qs = Some (JObj [(''id'', JStr [])])\<rparr>]"
  by (simp add: supplied_def userStorage_find_def userStorage_find_req_def js_or_def request_def
        issued_def ok_server_def ok_response_def example_defs)

section \<open>create and its read-back\<close>

text \<open>
  C1. For every create call of user storage and of the identity providers: when the POST
  is answered with status 201 and a \<open>Location\<close> header (a header value holds no line
  terminator), the identifier is the final path segment of that header, and create goes
  on as the find of the same module, for the same realm, with that identifier as
  \<open>options.id\<close> (\<open>options.alias\<close>): the promise ends as that find ends, whatever the body of
  the POST response was.
\<close>

theorem create_resolves_with_read_back:
  assumes "statusCode resp = 201"
    and "headers resp ''location'' = Some location"
    and "\<not> list_ex line_terminator location"
  shows "(srv (sent w) (userStorage_create_req client (privates w) realm entity) = Completed resp b \<longrightarrow>
            userStorage_create client srv realm entity w =
              userStorage_find client srv realm (JObj [(''id'', JStr (final_path_segment location))])
                (w\<lparr>sent := sent w @ [userStorage_create_req client (privates w) realm entity]\<rparr>))
       \<and> (srv (sent w) (identityProvider_create_req client (privates w) realm entity) = Completed resp b \<longrightarrow>
            identityProvider_create client srv realm entity w =
              identityProvider_find client srv realm (JObj [(''alias'', JStr (final_path_segment location))])
                (w\<lparr>sent := sent w @ [identityProvider_create_req client (privates w) realm entity]\<rparr>))"
proof -
  have "replace_location location = final_path_segment location"
    using assms(3) by (simp add: replace_location_plain after_last_slash_final)
  with assms(1,2) show ?thesis
    by (simp add: userStorage_create_run identityProvider_create_run)
qed

theorem create_resolves_with_read_back_witness:
  "statusCode created_response = 201
   \<and> headers created_response ''location'' = Some created_location
   \<and> \<not> list_ex line_terminator created_location
   \<and> creating_server (sent example_world)
        (userStorage_create_req example_client (privates example_world) (JStr ''master'') example_entity)
     = Completed created_response (JStr [])
   \<and> creating_server (sent example_world)
        (identityProvider_create_req example_client (privates example_world) (JStr ''master'') example_entity)
     = Completed created_response (JStr [])
   \<and> fst (userStorage_create example_client creating_server (JStr ''master'') example_entity example_world)
     = Resolved found_body
   \<and> map url (sent (snd (userStorage_create example_client creating_server (JStr ''master'')
         example_entity example_world)))
     = [''https://host/admin/realms/master/components'',
        ''https://host/admin/realms/master/components/abc-123'']
   \<and> fst (identityProvider_create example_client creating_server (JStr ''master'') example_entity example_world)
     = Resolved found_body
   \<and> map url (sent (snd (identityProvider_create example_client creating_server (JStr ''master'')
         example_entity example_world)))
     = [''https://host/admin/realms/master/identity-provider/instances'',
        ''https://host/admin/realms/master/identity-provider/instances/abc-123'']"
proof -
  have status: "statusCode created_response = 201"
    and location: "headers created_response ''location'' = Some created_location"
    by (simp_all add: created_response_def)
  have posted: "creating_server (sent example_world)
        (userStorage_create_req example_client (privates example_world) (JStr ''master'') example_entity)
      = Completed created_response (JStr [])"
    "creating_server (sent example_world)
        (identityProvider_create_req example_client (privates example_world) (JStr ''master'') example_entity)
      = Completed created_response (JStr [])"
    by (simp_all add: creating_server_def userStorage_create_req_def identityProvider_create_req_def)
  from create_resolves_with_read_back [OF status location created_location_plain,
      where srv = creating_server and w = example_world and client = example_client
        and realm = "JStr ''master''" and entity = example_entity and b = "JStr []"]
    posted status location created_location_plain
  show ?thesis
    by (simp add: created_location_segment userStorage_find_def userStorage_find_req_def
          identityProvider_find_def identityProvider_find_req_def
          userStorage_create_req_def identityProvider_create_req_def
          js_or_def request_def creating_server_def example_world_def example_client_def
          example_privates_def privates_get_def ok_response_def)
qed

text \<open>
  C7. For every create call: when the transport fails on the POST, or the POST is
  answered with a status other than 201, the promise is rejected and the POST is the only
  request issued; a second request is issued only after the POST was answered with 201,
  and then it is the second and last one.
\<close>

theorem create_follow_up_only_after_201:
  assumes "is_create call"
    and "request_of client (privates w) call = Inr post"
  shows "(\<forall>err. srv (sent w) post = Failed err \<longrightarrow>
            invoke client srv call w = (RejectedErr err, w\<lparr>sent := sent w @ [post]\<rparr>))
       \<and> (\<forall>resp b. srv (sent w) post = Completed resp b \<and> statusCode resp \<noteq> 201 \<longrightarrow>
            invoke client srv call w = (Rejected b, w\<lparr>sent := sent w @ [post]\<rparr>))
       \<and> (issued w (snd (invoke client srv call w)) = [post]
          \<or> (\<exists>resp b get. srv (sent w) post = Completed resp b \<and> statusCode resp = 201
                \<and> issued w (snd (invoke client srv call w)) = [post, get]))"
proof (cases call)
  case (UserStorage_create a b)
  with assms have post: "post = userStorage_create_req client (privates w) a b"
    by simp
  from userStorage_create_world [of client srv a b w]
  have "issued w (snd (userStorage_create client srv a b w)) = [post]
          \<or> (\<exists>resp b' get. srv (sent w) post = Completed resp b' \<and> statusCode resp = 201
                \<and> issued w (snd (userStorage_create client srv a b w)) = [post, get])"
    unfolding post by (auto simp: issued_def)
  then show ?thesis
    using UserStorage_create by (simp add: userStorage_create_run post)
next
  case (IdentityProvider_create a b)
  with assms have post: "post = identityProvider_create_req client (privates w) a b"
    by simp
  from identityProvider_create_world [of client srv a b w]
  have "issued w (snd (identityProvider_create client srv a b w)) = [post]
          \<or> (\<exists>resp b' get. srv (sent w) post = Completed resp b' \<and> statusCode resp = 201
                \<and> issued w (snd (identityProvider_create client srv a b w)) = [post, get])"
    unfolding post by (auto simp: issued_def)
  then show ?thesis
    using IdentityProvider_create by (simp add: identityProvider_create_run post)
qed (use assms in simp_all)

theorem create_follow_up_only_after_201_witness:
  "is_create (UserStorage_create (JStr ''master'') example_entity)
   \<and> request_of example_client (privates example_world) (UserStorage_create (JStr ''master'') example_entity)
     = Inr (userStorage_create_req example_client example_privates (JStr ''master'') example_entity)
   \<and> refusing_server (sent example_world)
        (userStorage_create_req example_client example_privates (JStr ''master'') example_entity)
     = Failed (TransportError ''ECONNREFUSED'')
   \<and> invoke example_client refusing_server (UserStorage_create (JStr ''master'') example_entity) example_world
     = (RejectedErr (TransportError ''ECONNREFUSED''),
        example_world\<lparr>sent := [userStorage_create_req example_client example_privates (JStr ''master'') example_entity]\<rparr>)
   \<and> invalid_server (sent example_world)
        (userStorage_create_req example_client example_privates (JStr ''master'') example_entity)
     = Completed invalid_response invalid_body
   \<and> statusCode invalid_response \<noteq> 201
   \<and> invoke example_client invalid_server (UserStorage_create (JStr ''master'') example_entity) example_world
     = (Rejected invalid_body,
        example_world\<lparr>sent := [userStorage_create_req example_client example_privates (JStr ''master'') example_entity]\<rparr>)
   \<and> map http_method (issued example_world
         (snd (invoke example_client creating_server (UserStorage_create (JStr ''master'') example_entity)
                example_world)))
     = [Some ''POST'', None]"
proof -
  let ?call = "UserStorage_create (JStr ''master'') example_entity"
  let ?post = "userStorage_create_req example_client example_privates (JStr ''master'') example_entity"
  have kind: "is_create ?call"
    by simp
  have built: "request_of example_client (privates example_world) ?call = Inr ?post"
    by (simp add: example_world_def)
  have refused: "refusing_server (sent example_world) ?post = Failed (TransportError ''ECONNREFUSED'')"
    by (simp add: refusing_server_def)
  have invalid: "invalid_server (sent example_world) ?post = Completed invalid_response invalid_body"
    and mismatch: "statusCode invalid_response \<noteq> 201"
    by (simp_all add: invalid_server_def invalid_response_def)
  have created: "map http_method (issued example_world
         (snd (invoke example_client creating_server ?call example_world)))
      = [Some ''POST'', None]"
    by (simp add: userStorage_create_def userStorage_create_req_def userStorage_find_def
          userStorage_find_req_def js_or_def request_def issued_def creating_server_def
          created_response_def ok_response_def example_world_def replace_created_location)
  from create_follow_up_only_after_201 [OF kind built, of refusing_server]
    create_follow_up_only_after_201 [OF kind built, of invalid_server]
    kind built refused invalid mismatch created
  show ?thesis
    by (simp add: example_world_def)
qed

text \<open>
  C9. For every create call whose POST is answered with status 201: without a
  \<open>Location\<close> header the read of the identifier throws a TypeError inside the request
  callback, so the promise is neither resolved nor rejected and no second request is
  issued; with a \<open>Location\<close> header that holds no slash, the identifier is the whole
  header.
\<close>

theorem create_location_precondition:
  assumes "statusCode resp = 201"
  shows "(srv (sent w) (userStorage_create_req client (privates w) realm entity) = Completed resp b \<longrightarrow>
            (headers resp ''location'' = None \<longrightarrow>
               userStorage_create client srv realm entity w =
                 (Uncaught TypeError,
                  w\<lparr>sent := sent w @ [userStorage_create_req client (privates w) realm entity]\<rparr>))
          \<and> (\<forall>location. headers resp ''location'' = Some location \<and> CHR ''/'' \<notin> set location \<longrightarrow>
               userStorage_create client srv realm entity w =
                 userStorage_find client srv realm (JObj [(''id'', JStr location)])
                   (w\<lparr>sent := sent w @ [userStorage_create_req client (privates w) realm entity]\<rparr>)))
       \<and> (srv (sent w) (identityProvider_create_req client (privates w) realm entity) = Completed resp b \<longrightarrow>
            (headers resp ''location'' = None \<longrightarrow>
               identityProvider_create client srv realm entity w =
                 (Uncaught TypeError,
                  w\<lparr>sent := sent w @ [identityProvider_create_req client (privates w) realm entity]\<rparr>))
          \<and> (\<forall>location. headers resp ''location'' = Some location \<and> CHR ''/'' \<notin> set location \<longrightarrow>
               identityProvider_create client srv realm entity w =
                 identityProvider_find client srv realm (JObj [(''alias'', JStr location)])
                   (w\<lparr>sent := sent w @ [identityProvider_create_req client (privates w) realm entity]\<rparr>)))"
  using assms
  by (simp add: userStorage_create_run identityProvider_create_run replace_location_no_slash)

theorem create_location_precondition_witness:
  "statusCode no_location_response = 201
   \<and> headers no_location_response ''location'' = None
   \<and> no_location_server (sent example_world)
        (userStorage_create_req example_client (privates example_world) (JStr ''master'') example_entity)
     = Completed no_location_response (JStr [])
   \<and> userStorage_create example_client no_location_server (JStr ''master'') example_entity example_world
     = (Uncaught TypeError,
        example_world\<lparr>sent := [userStorage_create_req example_client example_privates (JStr ''master'')
                                 example_entity]\<rparr>)
   \<and> no_location_server (sent example_world)
        (identityProvider_create_req example_client (privates example_world) (JStr ''master'') example_entity)
     = Completed no_location_response (JStr [])
   \<and> identityProvider_create example_client no_location_server (JStr ''master'') example_entity example_world
     = (Uncaught TypeError,
        example_world\<lparr>sent := [identityProvider_create_req example_client example_privates (JStr ''master'')
                                 example_entity]\<rparr>)
   \<and> statusCode bare_response = 201
   \<and> headers bare_response ''location'' = Some ''abc-123''
   \<and> CHR ''/'' \<notin> set ''abc-123''
   \<and> bare_location_server (sent example_world)
        (userStorage_create_req example_client (privates example_world) (JStr ''master'') example_entity)
     = Completed bare_response (JStr [])
   \<and> map url (sent (snd (userStorage_create example_client bare_location_server (JStr ''master'')
         example_entity example_world)))
     = [''https://host/admin/realms/master/components'',
        ''https://host/admin/realms/master/components/abc-123'']
   \<and> bare_location_server (sent example_world)
        (identityProvider_create_req example_client (privates example_world) (JStr ''master'') example_entity)
     = Completed bare_response (JStr [])
   \<and> map url (sent (snd (identityProvider_create example_client bare_location_server (JStr ''master'')
         example_entity example_world)))
     = [''https://host/admin/realms/master/identity-provider/instances'',
        ''https://host/admin/realms/master/identity-provider/instances/abc-123'']"
proof -
  have none: "statusCode no_location_response = 201"
      "headers no_location_response ''location'' = None"
      "no_location_server (sent example_world)
        (userStorage_create_req example_client (privates example_world) (JStr ''master'') example_entity)
       = Completed no_location_response (JStr [])"
      "no_location_server (sent example_world)
        (identityProvider_create_req example_client (privates example_world) (JStr ''master'') example_entity)
       = Completed no_location_response (JStr [])"
    by (simp_all add: no_location_response_def no_location_server_def)
  have bare: "statusCode bare_response = 201"
      "headers bare_response ''location'' = Some ''abc-123''"
      "CHR ''/'' \<notin> set ''abc-123''"
      "bare_location_server (sent example_world)
        (userStorage_create_req example_client (privates example_world) (JStr ''master'') example_entity)
       = Completed bare_response (JStr [])"
      "bare_location_server (sent example_world)
        (identityProvider_create_req example_client (privates example_world) (JStr ''master'') example_entity)
       = Completed bare_response (JStr [])"
    by (simp_all add: bare_response_def bare_location_server_def userStorage_create_req_def
          identityProvider_create_req_def)
  from create_location_precondition [OF none(1), where srv = no_location_server and w = example_world
        and client = example_client and realm = "JStr ''master''" and entity = example_entity
        and b = "JStr []"]
    create_location_precondition [OF bare(1), where srv = bare_location_server and w = example_world
        and client = example_client and realm = "JStr ''master''" and entity = example_entity
        and b = "JStr []"]
    none bare
  show ?thesis
    by (simp add: userStorage_find_def userStorage_find_req_def
          identityProvider_find_def identityProvider_find_req_def
          userStorage_create_req_def identityProvider_create_req_def
          js_or_def request_def bare_location_server_def example_world_def example_client_def
          example_privates_def privates_get_def ok_response_def)
qed

section \<open>update without an identifier\<close>

text \<open>
  C10. The update of user storage and of the identity providers validates nothing
  locally: for every entity the descriptor is built and the PUT is issued; an absent (or
  otherwise falsy) entity is replaced by \<open>{}\<close>; and for an entity that lacks \<open>id\<close>
  (\<open>alias\<close>) the last path segment of the URL is the text \<open>undefined\<close>.
\<close>

theorem update_without_local_validation:
  "(\<exists>r. userStorage_update_req client (privates w) realm entity = Inr r
       \<and> issued w (snd (userStorage_update client srv realm entity w)) = [r]
       \<and> http_method r = Some ''PUT''
       \<and> body r = Some (if js_truthy entity then entity else JObj [])
       \<and> (lacks entity ''id'' \<longrightarrow>
            url r = baseUrl client @ ''/admin/realms/'' @ to_string realm @ ''/components/undefined''))
   \<and> (\<exists>r. identityProvider_update_req client (privates w) realm entity = Inr r
       \<and> issued w (snd (identityProvider_update client srv realm entity w)) = [r]
       \<and> http_method r = Some ''PUT''
       \<and> body r = Some (if js_truthy entity then entity else JObj [])
       \<and> (lacks entity ''alias'' \<longrightarrow>
            url r = baseUrl client @ ''/admin/realms/'' @ to_string realm
                      @ ''/identity-provider/instances/undefined''))"
proof (intro conjI)
  obtain v where v: "js_get (js_or entity (JObj [])) ''id'' = Inr v"
    using js_get_or_total by blast
  let ?r = "\<lparr>url = baseUrl client @ ''/admin/realms/'' @ to_string realm @ ''/components/'' @ to_string v,
             auth_bearer = accessToken (privates_get (privates w) client),
             json = Some True, http_method = Some ''PUT'',
             body = Some (js_or entity (JObj [])), qs = None\<rparr>"
  have built: "userStorage_update_req client (privates w) realm entity = Inr ?r"
    using v by (simp add: userStorage_update_req_def)
  have "issued w (snd (userStorage_update client srv realm entity w)) = [?r]"
    by (simp add: userStorage_update_def built request_def issued_def split: reply.splits)
  moreover have "lacks entity ''id'' \<longrightarrow> v = JUndefined"
    using v lacks_reads_undefined [of entity "''id''"] by auto
  ultimately show "\<exists>r. userStorage_update_req client (privates w) realm entity = Inr r
       \<and> issued w (snd (userStorage_update client srv realm entity w)) = [r]
       \<and> http_method r = Some ''PUT''
       \<and> body r = Some (if js_truthy entity then entity else JObj [])
       \<and> (lacks entity ''id'' \<longrightarrow>
            url r = baseUrl client @ ''/admin/realms/'' @ to_string realm @ ''/components/undefined'')"
    using built by (intro exI [of _ ?r]) (auto simp: js_or_def)
next
  obtain v where v: "js_get (js_or entity (JObj [])) ''alias'' = Inr v"
    using js_get_or_total by blast
  let ?r = "\<lparr>url = baseUrl client @ ''/admin/realms/'' @ to_string realm
                   @ ''/identity-provider/instances/'' @ to_string v,
             auth_bearer = accessToken (privates_get (privates w) client),
             json = Some True, http_method = Some ''PUT'',
             body = Some (js_or entity (JObj [])), qs = None\<rparr>"
  have built: "identityProvider_update_req client (privates w) realm entity = Inr ?r"
    using v by (simp add: identityProvider_update_req_def)
  have "issued w (snd (identityProvider_update client srv realm entity w)) = [?r]"
    by (simp add: identityProvider_update_def built request_def issued_def split: reply.splits)
  moreover have "lacks entity ''alias'' \<longrightarrow> v = JUndefined"
    using v lacks_reads_undefined [of entity "''alias''"] by auto
  ultimately show "\<exists>r. identityProvider_update_req client (privates w) realm entity = Inr r
       \<and> issued w (snd (identityProvider_update client srv realm entity w)) = [r]
       \<and> http_method r = Some ''PUT''
       \<and> body r = Some (if js_truthy entity then entity else JObj [])
       \<and> (lacks entity ''alias'' \<longrightarrow>
            url r = baseUrl client @ ''/admin/realms/'' @ to_string realm
                      @ ''/identity-provider/instances/undefined'')"
    using built by (intro exI [of _ ?r]) (auto simp: js_or_def)
qed

theorem update_without_local_validation_witness:
  "lacks JUndefined ''id''
   \<and> userStorage_update_req example_client (privates example_world) (JStr ''master'') JUndefined
     = Inr \<lparr>url = ''https://host/admin/realms/master/components/undefined'', auth_bearer = ''token-1'',
            json = Some True, http_method = Some ''PUT'', body = Some (JObj []), qs = None\<rparr>
   \<and> issued example_world
        (snd (userStorage_update example_client refusing_server (JStr ''master'') JUndefined example_world))
     = [\<lparr>url = ''https://host/admin/realms/master/components/undefined'', auth_bearer = ''token-1'',
         json = Some True, http_method = Some ''PUT'', body = Some (JObj []), qs = None\<rparr>]
   \<and> lacks example_entity ''alias''
   \<and> map url (issued example_world
        (snd (identityProvider_update example_client refusing_server (JStr ''master'') example_entity
               example_world)))
     = [''https://host/admin/realms/master/identity-provider/instances/undefined'']"
proof -
  have lacking: "lacks JUndefined ''id''" "lacks example_entity ''alias''"
    by (simp_all add: lacks_def supplied_def example_entity_def)
  from update_without_local_validation
      [of example_client example_world "JStr ''master''" JUndefined refusing_server]
    update_without_local_validation
      [of example_client example_world "JStr ''master''" example_entity refusing_server]
    lacking
  show ?thesis
    by (auto simp: example_defs userStorage_update_req_def js_or_def)
qed

end
